theory Spec2Isabelle
  imports Complex_Main "HOL-Library.Log_Nat"
begin

section \<open>Python results\<close>

text \<open>
  The repository holds two notebooks. Every Python function is embedded as a HOL function
  that returns a value of a sum type: \<open>Inl\<close> carries the exception the call raises,
  \<open>Inr\<close> the value it returns.
\<close>

datatype pyerror =
    NameError string
  | AttributeError string
  | TypeError string
  | ValueError
  | OverflowError
  | IndexError
  | RuntimeError
  | ZeroDivisionError

section \<open>The notebook on callables and methods\<close>

subsection \<open>Values, instances and classes\<close>

text \<open>
  The values the transcript passes around are integers, strings and \<open>None\<close>. An instance
  is its class name and its instance dictionary (\<open>__dict__\<close>). Calls return the value
  together with the instance as the call leaves it.
\<close>

datatype pyval = PyInt int | PyStr string | PyNone

record pyobject =
  cls :: string
  inst_dict :: "string \<rightharpoonup> pyval"

text \<open>\<open>a + b\<close>: addition of integers, concatenation of strings, a type error otherwise.\<close>

fun py_add :: "pyval \<Rightarrow> pyval \<Rightarrow> pyerror + pyval" where
  "py_add (PyInt a) (PyInt b) = Inr (PyInt (a + b))"
| "py_add (PyStr a) (PyStr b) = Inr (PyStr (a @ b))"
| "py_add a b = Inl (TypeError ''unsupported operand type(s) for +'')"

text \<open>\<open>setattr(obj, name, v)\<close> and \<open>obj.name = v\<close> store into the instance dictionary.\<close>

definition py_setattr :: "pyobject \<Rightarrow> string \<Rightarrow> pyval \<Rightarrow> pyerror + pyval \<times> pyobject" where
  "py_setattr obj name v = Inr (PyNone, obj\<lparr>inst_dict := (inst_dict obj)(name \<mapsto> v)\<rparr>)"

text \<open>The functions that the classes \<open>Adder\<close> and \<open>Person\<close> (its last definition) define.\<close>

datatype func = Adder_init_fn | Adder_call_fn | Person_set_name_fn

definition class_dict :: "string \<Rightarrow> string \<rightharpoonup> func" where
  "class_dict c =
     (if c = ''Adder'' then [''__init__'' \<mapsto> Adder_init_fn, ''__call__'' \<mapsto> Adder_call_fn]
      else if c = ''Person'' then [''set_name'' \<mapsto> Person_set_name_fn]
      else Map.empty)"

text \<open>
  \<open>obj.name\<close>: the classes define no data descriptor, so the instance dictionary is read
  first and the class only when the instance has no such entry; a function found in the
  class comes back bound to the instance.
\<close>

datatype attribute = Data pyval | Method func

definition py_getattr :: "pyobject \<Rightarrow> string \<Rightarrow> pyerror + attribute" where
  "py_getattr obj name =
     (case inst_dict obj name of
        Some v \<Rightarrow> Inr (Data v)
      | None \<Rightarrow>
          (case class_dict (cls obj) name of
             Some f \<Rightarrow> Inr (Method f)
           | None \<Rightarrow> Inl (AttributeError name)))"

subsection \<open>The class bodies\<close>

text \<open>
  \<^verbatim>\<open>
  class Adder:
      def __init__(self, n):
           self.n = n
      def __call__(self, x):
          return self.n + x
  \<close>
\<close>

definition Adder_init :: "pyobject \<Rightarrow> pyval \<Rightarrow> pyerror + pyval \<times> pyobject" where
  "Adder_init self n = py_setattr self ''n'' n"

definition Adder_call :: "pyobject \<Rightarrow> pyval \<Rightarrow> pyerror + pyval \<times> pyobject" where
  "Adder_call self x =
     (case py_getattr self ''n'' of
        Inl e \<Rightarrow> Inl e
      | Inr (Method f) \<Rightarrow> Inl (TypeError ''unsupported operand type(s) for +'')
      | Inr (Data n) \<Rightarrow>
          (case py_add n x of
             Inl e \<Rightarrow> Inl e
           | Inr v \<Rightarrow> Inr (v, self)))"

text \<open>
  \<^verbatim>\<open>
  class Person:
      def set_name(instance_obj, new_name):
          setattr(instance_obj, 'name', new_name)
  \<close>
\<close>

definition Person_set_name :: "pyobject \<Rightarrow> pyval \<Rightarrow> pyerror + pyval \<times> pyobject" where
  "Person_set_name instance_obj new_name = py_setattr instance_obj ''name'' new_name"

subsection \<open>Calls\<close>

text \<open>A function applied to its first argument (an instance) and the remaining ones.\<close>

fun apply_func :: "func \<Rightarrow> pyobject \<Rightarrow> pyval list \<Rightarrow> pyerror + pyval \<times> pyobject" where
  "apply_func Adder_init_fn self [n] = Adder_init self n"
| "apply_func Adder_call_fn self [x] = Adder_call self x"
| "apply_func Person_set_name_fn instance_obj [new_name] = Person_set_name instance_obj new_name"
| "apply_func f obj args = Inl (TypeError ''wrong number of arguments'')"

text \<open>\<open>C(args)\<close>: a fresh instance with an empty dictionary, initialised by \<open>__init__\<close>.\<close>

definition py_new :: "string \<Rightarrow> pyval list \<Rightarrow> pyerror + pyobject" where
  "py_new c args =
     (let obj = \<lparr>cls = c, inst_dict = Map.empty\<rparr> in
      case class_dict c ''__init__'' of
        None \<Rightarrow> (if args = [] then Inr obj else Inl (TypeError ''takes no arguments''))
      | Some f \<Rightarrow>
          (case apply_func f obj args of
             Inl e \<Rightarrow> Inl e
           | Inr (r, obj') \<Rightarrow> Inr obj'))"

text \<open>
  \<open>obj(args)\<close>: invocation of an instance looks \<open>__call__\<close> up in the class of the
  instance, never in the instance dictionary.
\<close>

definition py_call :: "pyobject \<Rightarrow> pyval list \<Rightarrow> pyerror + pyval \<times> pyobject" where
  "py_call obj args =
     (case class_dict (cls obj) ''__call__'' of
        None \<Rightarrow> Inl (TypeError ''object is not callable'')
      | Some f \<Rightarrow> apply_func f obj args)"

text \<open>\<open>obj.name(args)\<close>: the attribute is looked up on the instance, then called.\<close>

definition call_method :: "pyobject \<Rightarrow> string \<Rightarrow> pyval list \<Rightarrow> pyerror + pyval \<times> pyobject" where
  "call_method obj name args =
     (case py_getattr obj name of
        Inl e \<Rightarrow> Inl e
      | Inr (Data v) \<Rightarrow> Inl (TypeError ''object is not callable'')
      | Inr (Method f) \<Rightarrow> apply_func f obj args)"

text \<open>\<open>C.name(obj, args)\<close>: the function is read from the class and called as it is.\<close>

definition call_class_function ::
  "string \<Rightarrow> string \<Rightarrow> pyobject \<Rightarrow> pyval list \<Rightarrow> pyerror + pyval \<times> pyobject" where
  "call_class_function c name obj args =
     (case class_dict c name of
        None \<Rightarrow> Inl (AttributeError name)
      | Some f \<Rightarrow> apply_func f obj args)"

text \<open>The transcript's \<open>plus_3 = Adder(3)\<close> followed by \<open>plus_3(4)\<close>, for any two values.\<close>

definition Adder_apply :: "pyval \<Rightarrow> pyval \<Rightarrow> pyerror + pyval" where
  "Adder_apply n x =
     (case py_new ''Adder'' [n] of
        Inl e \<Rightarrow> Inl e
      | Inr adder \<Rightarrow>
          (case py_call adder [x] of
             Inl e \<Rightarrow> Inl e
           | Inr (v, adder') \<Rightarrow> Inr v))"

section \<open>The translation notebook: timing\<close>

subsection \<open>Python numbers\<close>

text \<open>
  The training loop times an epoch with two readings of \<open>time.time()\<close>, which are floats;
  \<open>epoch_time\<close> itself takes any two numbers. A Python \<open>int\<close> is unbounded. A Python
  \<open>float\<close> is an IEEE 754 double: a finite double is kept here as the rational number it
  stands for (the sign of a zero is not kept; \<open>==\<close> does not see it either), and there
  are the two infinities and the value that is not a number.

  Every operation on doubles returns the exact result rounded to the nearest double, a
  tie going to the even significand. \<open>expo x\<close> is the binary exponent of a rational \<open>x\<close>
  other than zero, so that \<open>2 ^ expo x \<le> \<bar>x\<bar> < 2 ^ (expo x + 1)\<close>. \<open>ulp x\<close> is the distance
  between neighbouring doubles at \<open>x\<close>: a double has 53 significant bits and no exponent
  below \<open>- 1022\<close>, so the doubles near zero are the multiples of \<open>2 ^ - 1074\<close>. \<open>fl x\<close>
  is \<open>x\<close> rounded to a multiple of \<open>ulp x\<close>; a result that rounds to \<open>2 ^ 1024\<close> or beyond
  has overflowed.
\<close>

definition expo :: "rat \<Rightarrow> int" where
  "expo x =
     (let (n, d) = quotient_of \<bar>x\<bar>; k = bitlen n - bitlen d
      in if 2 powi k \<le> \<bar>x\<bar> then k else k - 1)"

definition ulp :: "rat \<Rightarrow> rat" where
  "ulp x = 2 powi (max (expo x) (- 1022) - 52)"

definition round_half_even :: "rat \<Rightarrow> int" where
  "round_half_even r =
     (let f = \<lfloor>r\<rfloor>; t = r - of_int f
      in if t < 1 / 2 then f else if 1 / 2 < t then f + 1 else if even f then f else f + 1)"

definition fl :: "rat \<Rightarrow> rat" where
  "fl x = of_int (round_half_even (x / ulp x)) * ulp x"

datatype pyfloat = Finite rat | PosInf | NegInf | NaN

datatype pynum = PInt int | PFloat pyfloat

text \<open>A float operation that overflows returns an infinity.\<close>

definition round_float :: "rat \<Rightarrow> pyfloat" where
  "round_float x =
     (let y = fl x
      in if 2 ^ 1024 \<le> y then PosInf else if y \<le> - (2 ^ 1024) then NegInf else Finite y)"

text \<open>
  An \<open>int\<close> that meets a float in an operation is converted to the nearest double first;
  an \<open>int\<close> too large for a double raises \<open>OverflowError\<close>.
\<close>

definition float_of_int :: "int \<Rightarrow> pyerror + rat" where
  "float_of_int n =
     (let y = fl (of_int n) in if 2 ^ 1024 \<le> \<bar>y\<bar> then Inl OverflowError else Inr y)"

fun float_sub :: "pyfloat \<Rightarrow> pyfloat \<Rightarrow> pyfloat" where
  "float_sub (Finite a) (Finite b) = round_float (a - b)"
| "float_sub NaN b = NaN"
| "float_sub a NaN = NaN"
| "float_sub PosInf PosInf = NaN"
| "float_sub NegInf NegInf = NaN"
| "float_sub PosInf b = PosInf"
| "float_sub NegInf b = NegInf"
| "float_sub (Finite a) PosInf = NegInf"
| "float_sub (Finite a) NegInf = PosInf"

text \<open>\<open>a - b\<close>: exact on two \<open>int\<close>s, a float subtraction otherwise.\<close>

fun py_sub :: "pynum \<Rightarrow> pynum \<Rightarrow> pyerror + pynum" where
  "py_sub (PInt a) (PInt b) = Inr (PInt (a - b))"
| "py_sub (PFloat a) (PFloat b) = Inr (PFloat (float_sub a b))"
| "py_sub (PFloat a) (PInt b) =
     (case float_of_int b of
        Inl e \<Rightarrow> Inl e
      | Inr y \<Rightarrow> Inr (PFloat (float_sub a (Finite y))))"
| "py_sub (PInt a) (PFloat b) =
     (case float_of_int a of
        Inl e \<Rightarrow> Inl e
      | Inr y \<Rightarrow> Inr (PFloat (float_sub (Finite y) b)))"

fun float_div :: "pyfloat \<Rightarrow> rat \<Rightarrow> pyfloat" where
  "float_div (Finite a) d = round_float (a / d)"
| "float_div PosInf d = (if 0 < d then PosInf else NegInf)"
| "float_div NegInf d = (if 0 < d then NegInf else PosInf)"
| "float_div NaN d = NaN"

text \<open>
  \<open>a / n\<close> for an \<open>int\<close> \<open>n\<close>. The result is a float also when \<open>a\<close> is an \<open>int\<close>: the
  quotient of two \<open>int\<close>s is the exact quotient rounded once, and \<open>OverflowError\<close> where
  that is too large for a double.
\<close>

fun py_truediv :: "pynum \<Rightarrow> int \<Rightarrow> pyerror + pynum" where
  "py_truediv (PInt a) n =
     (if n = 0 then Inl ZeroDivisionError
      else let y = fl (of_int a / of_int n)
           in if 2 ^ 1024 \<le> \<bar>y\<bar> then Inl OverflowError else Inr (PFloat (Finite y)))"
| "py_truediv (PFloat a) n =
     (case float_of_int n of
        Inl e \<Rightarrow> Inl e
      | Inr d \<Rightarrow> if d = 0 then Inl ZeroDivisionError else Inr (PFloat (float_div a d)))"

text \<open>
  \<open>int(x)\<close> truncates a finite float towards zero, and raises on an infinity and on the
  value that is not a number.
\<close>

definition trunc :: "rat \<Rightarrow> int" where
  "trunc x = (if 0 \<le> x then \<lfloor>x\<rfloor> else \<lceil>x\<rceil>)"

fun py_int :: "pynum \<Rightarrow> pyerror + int" where
  "py_int (PInt n) = Inr n"
| "py_int (PFloat (Finite x)) = Inr (trunc x)"
| "py_int (PFloat PosInf) = Inl OverflowError"
| "py_int (PFloat NegInf) = Inl OverflowError"
| "py_int (PFloat NaN) = Inl ValueError"

subsection \<open>The function\<close>

text \<open>
  \<^verbatim>\<open>
  def epoch_time(start_time, end_time):
      elapsed_time = end_time - start_time
      elapsed_mins = int(elapsed_time / 60)
      elapsed_secs = elapsed_time - (elapsed_mins * 60)
      return elapsed_mins, elapsed_secs
  \<close>
  The product \<open>elapsed_mins * 60\<close> is a product of two \<open>int\<close>s, and exact.
\<close>

definition epoch_time :: "pynum \<Rightarrow> pynum \<Rightarrow> pyerror + int \<times> pynum" where
  "epoch_time start_time end_time =
     (case py_sub end_time start_time of
        Inl e \<Rightarrow> Inl e
      | Inr elapsed_time \<Rightarrow>
     (case py_truediv elapsed_time 60 of
        Inl e \<Rightarrow> Inl e
      | Inr ratio \<Rightarrow>
     (case py_int ratio of
        Inl e \<Rightarrow> Inl e
      | Inr elapsed_mins \<Rightarrow>
     (case py_sub elapsed_time (PInt (elapsed_mins * 60)) of
        Inl e \<Rightarrow> Inl e
      | Inr elapsed_secs \<Rightarrow> Inr (elapsed_mins, elapsed_secs)))))"

section \<open>The translation notebook: cells and names\<close>

text \<open>
  A code cell is a list of top-level statements. What matters here is which names a
  statement binds in the module namespace, and whether it can be parsed: an assignment
  with nothing right of \<open>=\<close> is a syntax error, and a cell with a syntax error runs no
  statement at all. \<open>Import\<close> is an import under the name it binds, \<open>Def\<close> a \<open>def\<close> or a
  \<open>class\<close> statement, \<open>Assign\<close> an assignment with its targets and whether a right-hand
  side is written, \<open>Run\<close> a statement that binds no name (an expression, a shell escape,
  a comment). A loop at top level is written as the assignments it makes.
\<close>

datatype stmt =
    Import string
  | Def string
  | Assign "string list" bool
  | Run

fun stmt_parses :: "stmt \<Rightarrow> bool" where
  "stmt_parses (Assign targets has_rhs) = has_rhs"
| "stmt_parses s = True"

fun stmt_binds :: "stmt \<Rightarrow> string list" where
  "stmt_binds (Import n) = [n]"
| "stmt_binds (Def n) = [n]"
| "stmt_binds (Assign targets has_rhs) = targets"
| "stmt_binds Run = []"

definition cell_binds :: "stmt list \<Rightarrow> string list" where
  "cell_binds c = (if list_all stmt_parses c then concat (map stmt_binds c) else [])"

text \<open>The code cells of the translation notebook, in order.\<close>

definition imports_cell :: "stmt list" where
  "imports_cell =
     [Import ''time'', Import ''math'', Import ''random'', Import ''spacy'', Import ''np'',
      Import ''torch'', Import ''nn'', Import ''optim'', Import ''Multi30k'', Import ''Field'',
      Import ''BucketIterator'']"

definition hyperparameter_cell :: "stmt list" where
  "hyperparameter_cell =
     [Assign [''INPUT_DIM''] False, Assign [''OUTPUT_DIM''] False,
      Assign [''ENC_EMB_DIM''] False, Assign [''DEC_EMB_DIM''] False,
      Assign [''HID_DIM''] False, Assign [''N_LAYERS''] True, Assign [''DROPOUT''] True]"

definition training_loop_cell :: "stmt list" where
  "training_loop_cell =
     [Assign [''N_EPOCHS''] True, Assign [''CLIP''] True, Assign [''best_valid_loss''] True,
      Assign [''epoch''] True, Assign [''start_time''] True, Assign [''train_loss''] True,
      Assign [''valid_loss''] True, Assign [''end_time''] True,
      Assign [''epoch_mins'', ''epoch_secs''] True, Run, Run, Run]"

definition notebook_cells :: "stmt list list" where
  "notebook_cells =
     [imports_cell,
      [Run],
      [Assign [''spacy_de''] True, Assign [''spacy_en''] True],
      [Def ''tokenize_de''],
      [Def ''tokenize_en''],
      [Assign [''SRC''] True, Assign [''TRG''] True],
      [Assign [''train_data'', ''valid_data'', ''test_data''] True],
      [Run, Run, Run],
      [Run],
      [Run],
      [Run, Run],
      [Assign [''device''] True, Run],
      [Assign [''BATCH_SIZE''] True],
      [Assign [''train_iterator'', ''valid_iterator'', ''test_iterator''] True],
      [Assign [''temp''] True, Run],
      [Def ''Encoder''],
      [Def ''Decoder''],
      [Def ''Seq2Seq''],
      hyperparameter_cell,
      [Assign [''encoder''] True, Assign [''decoder''] True, Assign [''model''] True],
      [Def ''init_weights'', Run],
      [Def ''count_parameters'', Run],
      [Assign [''optimizer''] True],
      [Assign [''criterion''] True],
      [Def ''train''],
      [Def ''evaluate''],
      [Def ''epoch_time''],
      training_loop_cell,
      [Assign [''test_loss''] False, Run]]"

definition shipped_names :: "string list" where
  "shipped_names = concat (map cell_binds notebook_cells)"

text \<open>
  The values of the translation notebook: integers, tensors (of a type the library
  fixes), lists of strings and every other object, known by a name only. A namespace
  gives the value a free name of a function resolves to. \<open>shipped_namespace\<close> binds every
  name a cell of the notebook can bind, as if each such statement had run. The built-in
  names of the language are not in it: none of them is among the names looked up below.
\<close>

datatype 't nbval = VInt int | VTensor 't | VStrs "string list" | VObj string

type_synonym 't namespace = "string \<rightharpoonup> 't nbval"

definition load_global :: "'t namespace \<Rightarrow> string \<Rightarrow> pyerror + 't nbval" where
  "load_global g name = (case g name of None \<Rightarrow> Inl (NameError name) | Some v \<Rightarrow> Inr v)"

definition shipped_namespace :: "'t namespace" where
  "shipped_namespace = map_of (map (\<lambda>n. (n, VObj n)) shipped_names)"

section \<open>The translation notebook: tokenizers\<close>

text \<open>
  \<^verbatim>\<open>
  def tokenize_de(text):
      # TODO
      # Implement the tokenization of german sentence using spacy_de
      return tokens
  \<close>
  and the same body for \<open>tokenize_en\<close>. The name \<open>tokens\<close> is assigned nowhere in the
  body, so it is a free name.
\<close>

definition tokenize_de :: "'t namespace \<Rightarrow> string \<Rightarrow> pyerror + 't nbval" where
  "tokenize_de g text = load_global g ''tokens''"

definition tokenize_en :: "'t namespace \<Rightarrow> string \<Rightarrow> pyerror + 't nbval" where
  "tokenize_en g text = load_global g ''tokens''"

section \<open>The translation notebook: the model classes\<close>

text \<open>
  The tensor library is not part of the repository: its operations are parameters. Each
  may raise. Creating, moving, reshaping and writing a tensor are functions of their
  arguments. Calling a module (a layer, an encoder, a decoder) is more than that: it may
  read and advance the state of the library, above all that of its random number
  generator, since \<open>nn.Dropout\<close> in training mode draws a fresh mask at every call. So
  a module call takes the state of the library, of a type \<open>'s\<close> that the library fixes,
  and returns the state it leaves together with its value. The state a raised exception
  leaves is not recorded.
\<close>

record ('t, 's) torch =
  zeros :: "'t nbval \<Rightarrow> 't nbval \<Rightarrow> 't nbval \<Rightarrow> pyerror + 't"
  to_device :: "'t \<Rightarrow> 't nbval \<Rightarrow> pyerror + 't"
  unsqueeze :: "'t \<Rightarrow> int \<Rightarrow> pyerror + 't"
  setitem :: "'t \<Rightarrow> int \<Rightarrow> 't nbval \<Rightarrow> pyerror + 't"
  Dropout :: "rat \<Rightarrow> 't \<Rightarrow> 's \<Rightarrow> pyerror + 't \<times> 's"

subsection \<open>Encoder\<close>

text \<open>
  \<^verbatim>\<open>
  class Encoder(nn.Module):
      def __init__(self, input_dim, embedding_dim, hidden_dim, num_layers, dropout):
          super().__init__()
          self.hidden_dim = hidden_dim
          self.num_layers = num_layers
          # TODO
          # self.embedding =
          # TODO
          # self.rnn =
          self.dropout = nn.Dropout(dropout)

      def forward(self, src):
          embedded_input = self.embedding(src)
          embedded_input = self.dropout(embedded_input)
          outputs, (hidden) = self.rnn(embedded_input)
          return hidden
  \<close>
  The attributes \<open>embedding\<close> and \<open>rnn\<close> are optional: \<open>__init__\<close> sets neither, and
  reading an attribute that is not set raises.
\<close>

record ('t, 's) Encoder =
  enc_hidden_dim :: int
  enc_num_layers :: int
  enc_embedding :: "('t \<Rightarrow> 's \<Rightarrow> pyerror + 't \<times> 's) option"
  enc_rnn :: "('t \<Rightarrow> 's \<Rightarrow> pyerror + ('t \<times> 't) \<times> 's) option"
  enc_dropout :: "'t \<Rightarrow> 's \<Rightarrow> pyerror + 't \<times> 's"

definition Encoder_init ::
  "('t, 's) torch \<Rightarrow> int \<Rightarrow> int \<Rightarrow> int \<Rightarrow> int \<Rightarrow> rat \<Rightarrow> ('t, 's) Encoder" where
  "Encoder_init L input_dim embedding_dim hidden_dim num_layers dropout =
     \<lparr>enc_hidden_dim = hidden_dim, enc_num_layers = num_layers,
      enc_embedding = None, enc_rnn = None, enc_dropout = Dropout L dropout\<rparr>"

definition Encoder_forward :: "('t, 's) Encoder \<Rightarrow> 't \<Rightarrow> 's \<Rightarrow> pyerror + 't \<times> 's" where
  "Encoder_forward self src st =
     (case enc_embedding self of
        None \<Rightarrow> Inl (AttributeError ''embedding'')
      | Some embedding \<Rightarrow>
     (case embedding src st of
        Inl e \<Rightarrow> Inl e
      | Inr (embedded_input, st1) \<Rightarrow>
     (case enc_dropout self embedded_input st1 of
        Inl e \<Rightarrow> Inl e
      | Inr (embedded_input', st2) \<Rightarrow>
     (case enc_rnn self of
        None \<Rightarrow> Inl (AttributeError ''rnn'')
      | Some rnn \<Rightarrow>
     (case rnn embedded_input' st2 of
        Inl e \<Rightarrow> Inl e
      | Inr ((outputs, hidden), st3) \<Rightarrow> Inr (hidden, st3))))))"

subsection \<open>Decoder\<close>

text \<open>
  \<^verbatim>\<open>
  class Decoder(nn.Module):
      def __init__(self, output_dim, embedding_dim, hidden_dim, num_layers, dropout):
          super().__init__()
          self.output_dim = output_dim
          self.hidden_dim = hidden_dim
          self.num_layers = num_layers
          # TODO  # self.embedding =
          # TODO  # self.rnn =
          # TODO  # self.out =
          self.dropout = nn.Dropout(dropout)

      def forward(self, dec_input, hidden):
          dec_input = dec_input.unsqueeze(0)
          dec_input_embedded = self.embedding(dec_input)
          dec_input_embedded = self.dropout(dec_input_embedded)
          output, (hidden) = self.rnn(dec_input_embedded, (hidden))
          # TODO
          # prediction =
          return prediction, hidden
  \<close>
  \<open>prediction\<close> is assigned nowhere in the body: a free name.
\<close>

record ('t, 's) Decoder =
  dec_output_dim :: int
  dec_hidden_dim :: int
  dec_num_layers :: int
  dec_embedding :: "('t \<Rightarrow> 's \<Rightarrow> pyerror + 't \<times> 's) option"
  dec_rnn :: "('t \<Rightarrow> 't \<Rightarrow> 's \<Rightarrow> pyerror + ('t \<times> 't) \<times> 's) option"
  dec_dropout :: "'t \<Rightarrow> 's \<Rightarrow> pyerror + 't \<times> 's"

definition Decoder_init ::
  "('t, 's) torch \<Rightarrow> int \<Rightarrow> int \<Rightarrow> int \<Rightarrow> int \<Rightarrow> rat \<Rightarrow> ('t, 's) Decoder" where
  "Decoder_init L output_dim embedding_dim hidden_dim num_layers dropout =
     \<lparr>dec_output_dim = output_dim, dec_hidden_dim = hidden_dim, dec_num_layers = num_layers,
      dec_embedding = None, dec_rnn = None, dec_dropout = Dropout L dropout\<rparr>"

definition Decoder_forward ::
  "('t, 's) torch \<Rightarrow> 't namespace \<Rightarrow> ('t, 's) Decoder \<Rightarrow> 't nbval \<Rightarrow> 't \<Rightarrow> 's
     \<Rightarrow> pyerror + ('t nbval \<times> 't) \<times> 's" where
  "Decoder_forward L g self dec_input hidden st =
     (case dec_input of
        VInt n \<Rightarrow> Inl (AttributeError ''unsqueeze'')
      | VStrs l \<Rightarrow> Inl (AttributeError ''unsqueeze'')
      | VObj n \<Rightarrow> Inl (AttributeError ''unsqueeze'')
      | VTensor t \<Rightarrow>
     (case unsqueeze L t 0 of
        Inl e \<Rightarrow> Inl e
      | Inr dec_input' \<Rightarrow>
     (case dec_embedding self of
        None \<Rightarrow> Inl (AttributeError ''embedding'')
      | Some embedding \<Rightarrow>
     (case embedding dec_input' st of
        Inl e \<Rightarrow> Inl e
      | Inr (dec_input_embedded, st1) \<Rightarrow>
     (case dec_dropout self dec_input_embedded st1 of
        Inl e \<Rightarrow> Inl e
      | Inr (dec_input_embedded', st2) \<Rightarrow>
     (case dec_rnn self of
        None \<Rightarrow> Inl (AttributeError ''rnn'')
      | Some rnn \<Rightarrow>
     (case rnn dec_input_embedded' hidden st2 of
        Inl e \<Rightarrow> Inl e
      | Inr ((output, hidden'), st3) \<Rightarrow>
     (case load_global g ''prediction'' of
        Inl e \<Rightarrow> Inl e
      | Inr prediction \<Rightarrow> Inr ((prediction, hidden'), st3)))))))))"

subsection \<open>Seq2Seq\<close>

text \<open>
  \<^verbatim>\<open>
  class Seq2Seq(nn.Module):
      def __init__(self, encoder, decoder):
          super().__init__()
          self.encoder = encoder
          self.decoder = decoder

      def forward(self, src, trg):
          # TODO
          # batch_size =
          # trg_len =
          # trg_vocab_size =
          outputs = torch.zeros(trg_len, batch_size, trg_vocab_size).to(device)
          hidden = self.encoder(src)
          # TODO
          # initial input to decoder is <sos> which indicates to start the decoding process
          # since the first token is always <sos> take that as initial decoder input
          # decoder_input =
          for step in range(1, trg_len):
              output, hidden = self.decoder(decoder_input, hidden)
              outputs[step] = output
              # TODO
              # get the input for decoder, for the next step
              # decoder_input =
          return outputs
  \<close>
  The constructor takes any two modules: an encoder is what calling it does to a source
  tensor, a decoder what calling it does to an input and a hidden state. The body assigns
  \<open>outputs\<close>, \<open>hidden\<close>, \<open>step\<close> and \<open>output\<close> only, so \<open>torch\<close>, \<open>trg_len\<close>,
  \<open>batch_size\<close>, \<open>trg_vocab_size\<close>, \<open>device\<close> and \<open>decoder_input\<close> are free names,
  resolved when the statement that mentions them runs. The name \<open>torch\<close>, where bound, is
  taken to be the library. The call returns the outputs and the state of the library as
  the last module call left it.
\<close>

record ('t, 's) Seq2Seq =
  encoder :: "'t \<Rightarrow> 's \<Rightarrow> pyerror + 't \<times> 's"
  decoder :: "'t nbval \<Rightarrow> 't \<Rightarrow> 's \<Rightarrow> pyerror + ('t nbval \<times> 't) \<times> 's"

definition Seq2Seq_init ::
  "('t \<Rightarrow> 's \<Rightarrow> pyerror + 't \<times> 's)
     \<Rightarrow> ('t nbval \<Rightarrow> 't \<Rightarrow> 's \<Rightarrow> pyerror + ('t nbval \<times> 't) \<times> 's) \<Rightarrow> ('t, 's) Seq2Seq" where
  "Seq2Seq_init enc dec = \<lparr>encoder = enc, decoder = dec\<rparr>"

text \<open>\<open>range(lo, hi)\<close> for an integer literal \<open>lo\<close>: \<open>hi\<close> has to be an integer.\<close>

definition py_range :: "int \<Rightarrow> 't nbval \<Rightarrow> pyerror + int list" where
  "py_range lo hi =
     (case hi of
        VInt n \<Rightarrow> Inr [lo..n - 1]
      | VTensor t \<Rightarrow> Inl (TypeError ''object cannot be interpreted as an integer'')
      | VStrs l \<Rightarrow> Inl (TypeError ''object cannot be interpreted as an integer'')
      | VObj n \<Rightarrow> Inl (TypeError ''object cannot be interpreted as an integer''))"

text \<open>The body of the loop, once for each step of the range.\<close>

fun decode_steps ::
  "('t, 's) torch \<Rightarrow> 't namespace \<Rightarrow> ('t, 's) Seq2Seq \<Rightarrow> int list \<Rightarrow> 't \<Rightarrow> 't \<Rightarrow> 's
     \<Rightarrow> pyerror + 't \<times> 's" where
  "decode_steps L g self [] outputs hidden st = Inr (outputs, st)"
| "decode_steps L g self (step # steps) outputs hidden st =
     (case load_global g ''decoder_input'' of
        Inl e \<Rightarrow> Inl e
      | Inr decoder_input \<Rightarrow>
     (case decoder self decoder_input hidden st of
        Inl e \<Rightarrow> Inl e
      | Inr ((output, hidden'), st1) \<Rightarrow>
     (case setitem L outputs step output of
        Inl e \<Rightarrow> Inl e
      | Inr outputs' \<Rightarrow> decode_steps L g self steps outputs' hidden' st1)))"

definition Seq2Seq_forward ::
  "('t, 's) torch \<Rightarrow> 't namespace \<Rightarrow> ('t, 's) Seq2Seq \<Rightarrow> 't \<Rightarrow> 't \<Rightarrow> 's \<Rightarrow> pyerror + 't \<times> 's" where
  "Seq2Seq_forward L g self src trg st =
     (case load_global g ''torch'' of
        Inl e \<Rightarrow> Inl e
      | Inr torch_module \<Rightarrow>
     (case load_global g ''trg_len'' of
        Inl e \<Rightarrow> Inl e
      | Inr trg_len \<Rightarrow>
     (case load_global g ''batch_size'' of
        Inl e \<Rightarrow> Inl e
      | Inr batch_size \<Rightarrow>
     (case load_global g ''trg_vocab_size'' of
        Inl e \<Rightarrow> Inl e
      | Inr trg_vocab_size \<Rightarrow>
     (case zeros L trg_len batch_size trg_vocab_size of
        Inl e \<Rightarrow> Inl e
      | Inr z \<Rightarrow>
     (case load_global g ''device'' of
        Inl e \<Rightarrow> Inl e
      | Inr device \<Rightarrow>
     (case to_device L z device of
        Inl e \<Rightarrow> Inl e
      | Inr outputs \<Rightarrow>
     (case encoder self src st of
        Inl e \<Rightarrow> Inl e
      | Inr (hidden, st1) \<Rightarrow>
     (case load_global g ''trg_len'' of
        Inl e \<Rightarrow> Inl e
      | Inr trg_len' \<Rightarrow>
     (case py_range 1 trg_len' of
        Inl e \<Rightarrow> Inl e
      | Inr steps \<Rightarrow> decode_steps L g self steps outputs hidden st1))))))))))"

text \<open>
  The model the notebook builds: \<open>Seq2Seq(encoder, decoder)\<close> for an \<open>Encoder\<close> and a
  \<open>Decoder\<close> instance, whose calls run their \<open>forward\<close>.
\<close>

definition notebook_model ::
  "('t, 's) torch \<Rightarrow> 't namespace \<Rightarrow> ('t, 's) Encoder \<Rightarrow> ('t, 's) Decoder \<Rightarrow> ('t, 's) Seq2Seq" where
  "notebook_model L g enc dec = Seq2Seq_init (Encoder_forward enc) (Decoder_forward L g dec)"

subsection \<open>A small tensor library and a completed namespace\<close>

text \<open>
  Concrete inputs for the statements below: tensors are lists of integers, the outputs
  tensor has one number for each step (batch size and vocabulary size one), and a
  namespace in which the four placeholder names of \<open>Seq2Seq.forward\<close> have been given
  values by hand. The state of this library is the number of random draws made so far.
  Its generator yields keep, drop, keep, drop and so on: \<open>Dropout p\<close> for \<open>p\<close> other than
  zero makes one draw for each element of its input and sets the elements that drew
  drop to zero; \<open>Dropout 0\<close> makes no draw and returns its input.
\<close>

definition list_torch :: "(int list, nat) torch" where
  "list_torch =
     \<lparr>zeros = (\<lambda>a b c. case a of VInt n \<Rightarrow> Inr (replicate (nat n) 0)
                         | VTensor t \<Rightarrow> Inl (TypeError ''zeros'')
                         | VStrs l \<Rightarrow> Inl (TypeError ''zeros'')
                         | VObj n \<Rightarrow> Inl (TypeError ''zeros'')),
      to_device = (\<lambda>t d. Inr t),
      unsqueeze = (\<lambda>t d. Inr t),
      setitem = (\<lambda>t i v. if i < 0 \<or> int (length t) \<le> i then Inl IndexError
                         else case v of VTensor x \<Rightarrow> Inr (t[nat i := sum_list x])
                         | VInt n \<Rightarrow> Inr (t[nat i := n])
                         | VStrs l \<Rightarrow> Inl (TypeError ''setitem'')
                         | VObj n \<Rightarrow> Inl (TypeError ''setitem'')),
      Dropout = (\<lambda>p t st. if p = 0 then Inr (t, st)
                         else Inr (map (\<lambda>(i, x). if even i then x else 0)
                                     (zip [st..<st + length t] t), st + length t))\<rparr>"

definition completed_namespace :: "int list namespace" where
  "completed_namespace =
     [''torch'' \<mapsto> VObj ''torch'', ''device'' \<mapsto> VObj ''cpu'', ''trg_len'' \<mapsto> VInt 3,
      ''batch_size'' \<mapsto> VInt 1, ''trg_vocab_size'' \<mapsto> VInt 1,
      ''decoder_input'' \<mapsto> VTensor [5]]"

text \<open>
  An encoder that sums its source, and three decoders. The prediction of \<open>echo_decoder\<close>
  is the input it was given. \<open>probe_decoder\<close> predicts ten times its input plus its
  hidden state and hands on the hidden state plus one: entry \<open>step\<close> of the outputs then
  shows both what the decoder was fed and which hidden state reached it at \<open>step\<close>.
  \<open>dropout_decoder\<close> applies dropout to its input, as \<open>Decoder.forward\<close> does, and
  predicts what is left of the input plus its hidden state.
\<close>

definition sum_encoder :: "int list \<Rightarrow> nat \<Rightarrow> pyerror + int list \<times> nat" where
  "sum_encoder src st = Inr ([sum_list src], st)"

definition echo_decoder ::
  "int list nbval \<Rightarrow> int list \<Rightarrow> nat \<Rightarrow> pyerror + (int list nbval \<times> int list) \<times> nat" where
  "echo_decoder dec_input hidden st = Inr ((dec_input, hidden), st)"

definition probe_decoder ::
  "int list nbval \<Rightarrow> int list \<Rightarrow> nat \<Rightarrow> pyerror + (int list nbval \<times> int list) \<times> nat" where
  "probe_decoder dec_input hidden st =
     (case dec_input of
        VTensor t \<Rightarrow>
          Inr ((VTensor [10 * sum_list t + sum_list hidden], map (\<lambda>h. h + 1) hidden), st)
      | VInt n \<Rightarrow> Inl (AttributeError ''unsqueeze'')
      | VStrs l \<Rightarrow> Inl (AttributeError ''unsqueeze'')
      | VObj n \<Rightarrow> Inl (AttributeError ''unsqueeze''))"

definition dropout_decoder ::
  "int list nbval \<Rightarrow> int list \<Rightarrow> nat \<Rightarrow> pyerror + (int list nbval \<times> int list) \<times> nat" where
  "dropout_decoder dec_input hidden st =
     (case dec_input of
        VTensor t \<Rightarrow>
          (case Dropout list_torch (1 / 2) t st of
             Inl e \<Rightarrow> Inl e
           | Inr (t', st1) \<Rightarrow> Inr ((VTensor [sum_list t' + sum_list hidden], hidden), st1))
      | VInt n \<Rightarrow> Inl (AttributeError ''unsqueeze'')
      | VStrs l \<Rightarrow> Inl (AttributeError ''unsqueeze'')
      | VObj n \<Rightarrow> Inl (AttributeError ''unsqueeze''))"

text \<open>
  An \<open>Encoder\<close> instance as its constructor builds it, with the two missing layers
  filled in afterwards: the embedding keeps its input, the recurrent layer returns its
  input as outputs and the sum of it as final hidden state.
\<close>

definition completed_encoder :: "rat \<Rightarrow> (int list, nat) Encoder" where
  "completed_encoder dropout =
     (Encoder_init list_torch 8 4 1 1 dropout)
       \<lparr>enc_embedding := Some (\<lambda>src st. Inr (src, st)),
        enc_rnn := Some (\<lambda>x st. Inr ((x, [sum_list x]), st))\<rparr>"

text \<open>
  These two definitions follow the words of the notebook's prose and of the comments in
  \<open>Seq2Seq.forward\<close>, not its code. What teacher forcing feeds the decoder for a target
  \<open>trg\<close> is \<open>trg[0]\<close> (the start token) at the first step, then \<open>trg[1]\<close>, up to the
  token before the last; \<open>teacher_forced_steps\<close> is the loop that does so, in the small
  library.
\<close>

definition teacher_forcing_inputs :: "int list \<Rightarrow> int list" where
  "teacher_forcing_inputs trg = butlast trg"

fun teacher_forced_steps ::
  "(int list, nat) Seq2Seq \<Rightarrow> int list \<Rightarrow> int list \<Rightarrow> int list \<Rightarrow> int list \<Rightarrow> nat
     \<Rightarrow> pyerror + int list \<times> nat" where
  "teacher_forced_steps self trg [] outputs hidden st = Inr (outputs, st)"
| "teacher_forced_steps self trg (step # steps) outputs hidden st =
     (if step < 1 \<or> int (length trg) \<le> step then Inl IndexError
      else
     (case decoder self (VTensor [teacher_forcing_inputs trg ! nat (step - 1)]) hidden st of
        Inl e \<Rightarrow> Inl e
      | Inr ((output, hidden'), st1) \<Rightarrow>
     (case setitem list_torch outputs step output of
        Inl e \<Rightarrow> Inl e
      | Inr outputs' \<Rightarrow> teacher_forced_steps self trg steps outputs' hidden' st1)))"

section \<open>The translation notebook: training\<close>

text \<open>
  \<^verbatim>\<open>
  def train(model, iterator, optimizer, criterion, clip):
      model.train()
      epoch_loss = 0
      for i, batch in enumerate(iterator):
          src = batch.src
          trg = batch.trg
          # zero the gradients
          optimizer.step()
          # forward pass
          output = model(src, trg)
          loss = criterion(output, trg)
          # backward pass
          loss.backward()
          # gradient clipping
          nn.utils.clip_grad_norm_(model.parameters(), clip)
          # update the parameters of the model
          optimizer.step()
          # update the loss
          epoch_loss += loss.item()
      return epoch_loss / len(iterator)
  \<close>
  The arguments are objects of the library, so the function is embedded by the calls it
  makes on them, in order: the state is the list of calls made so far. \<open>Apply o b\<close> is the
  call \<open>o(_, trg)\<close> on the tensors of batch \<open>b\<close>, \<open>Backward b\<close> and \<open>Item b\<close> are
  \<open>loss.backward()\<close> and \<open>loss.item()\<close> for the loss of batch \<open>b\<close>. \<open>ZeroGrad\<close> is the
  library's call that resets the accumulated gradients. The library decides, from the
  calls so far, whether a call raises and what \<open>loss.item()\<close> returns; a call that raises
  is recorded and ends the run. The iterator is the list of its batches. The free names
  \<open>nn\<close>, \<open>enumerate\<close> and \<open>len\<close> are taken to be the library and the built-in
  functions.
\<close>

datatype ('o, 'b) call =
    Train 'o
  | Eval 'o
  | Step 'o
  | ZeroGrad 'o
  | Apply 'o 'b
  | Backward 'b
  | ClipGradNorm 'o int
  | Item 'b

record ('o, 'b) runtime =
  raises :: "('o, 'b) call list \<Rightarrow> ('o, 'b) call \<Rightarrow> pyerror option"
  item_value :: "('o, 'b) call list \<Rightarrow> rat"

fun calls ::
  "('o, 'b) runtime \<Rightarrow> ('o, 'b) call list \<Rightarrow> ('o, 'b) call list \<Rightarrow>
     ('o, 'b) call list \<times> pyerror option" where
  "calls rt [] tr = (tr, None)"
| "calls rt (c # cs) tr =
     (case raises rt tr c of
        Some e \<Rightarrow> (tr @ [c], Some e)
      | None \<Rightarrow> calls rt cs (tr @ [c]))"

text \<open>The calls of one pass through the loop body of \<open>train\<close>.\<close>

definition train_step :: "'o \<Rightarrow> 'o \<Rightarrow> 'o \<Rightarrow> int \<Rightarrow> 'b \<Rightarrow> ('o, 'b) call list" where
  "train_step model optimizer criterion clip batch =
     [Step optimizer,
      Apply model batch,
      Apply criterion batch,
      Backward batch,
      ClipGradNorm model clip,
      Step optimizer,
      Item batch]"

fun train_batches ::
  "('o, 'b) runtime \<Rightarrow> 'o \<Rightarrow> 'o \<Rightarrow> 'o \<Rightarrow> int \<Rightarrow> 'b list \<Rightarrow> rat \<Rightarrow> ('o, 'b) call list \<Rightarrow>
     ('o, 'b) call list \<times> (pyerror + rat)" where
  "train_batches rt model optimizer criterion clip [] epoch_loss tr = (tr, Inr epoch_loss)"
| "train_batches rt model optimizer criterion clip (batch # rest) epoch_loss tr =
     (case calls rt (train_step model optimizer criterion clip batch) tr of
        (tr', Some e) \<Rightarrow> (tr', Inl e)
      | (tr', None) \<Rightarrow>
          train_batches rt model optimizer criterion clip rest
            (epoch_loss + item_value rt tr') tr')"

definition train ::
  "('o, 'b) runtime \<Rightarrow> 'o \<Rightarrow> 'b list \<Rightarrow> 'o \<Rightarrow> 'o \<Rightarrow> int \<Rightarrow> ('o, 'b) call list \<Rightarrow>
     ('o, 'b) call list \<times> (pyerror + rat)" where
  "train rt model iterator optimizer criterion clip tr =
     (case calls rt [Train model] tr of
        (tr', Some e) \<Rightarrow> (tr', Inl e)
      | (tr', None) \<Rightarrow>
          (case train_batches rt model optimizer criterion clip iterator 0 tr' of
             (tr'', Inl e) \<Rightarrow> (tr'', Inl e)
           | (tr'', Inr epoch_loss) \<Rightarrow>
               (if length iterator = 0 then (tr'', Inl ZeroDivisionError)
                else (tr'', Inr (epoch_loss / of_nat (length iterator))))))"

text \<open>
  \<^verbatim>\<open>
  def evaluate(model, iterator, criterion):
      model.eval()
      epoch_loss = 0
      with torch.no_grad():
          for i, batch in enumerate(iterator):
              src = batch.src
              trg = batch.trg
              output = model(src, trg)
              loss = criterion(output, trg)
              epoch_loss += loss.item()
      return epoch_loss / len(iterator)
  \<close>
  Entering \<open>torch.no_grad()\<close> is no call on the three arguments and is left out.
\<close>

definition evaluate_step :: "'o \<Rightarrow> 'o \<Rightarrow> 'b \<Rightarrow> ('o, 'b) call list" where
  "evaluate_step model criterion batch = [Apply model batch, Apply criterion batch, Item batch]"

fun evaluate_batches ::
  "('o, 'b) runtime \<Rightarrow> 'o \<Rightarrow> 'o \<Rightarrow> 'b list \<Rightarrow> rat \<Rightarrow> ('o, 'b) call list \<Rightarrow>
     ('o, 'b) call list \<times> (pyerror + rat)" where
  "evaluate_batches rt model criterion [] epoch_loss tr = (tr, Inr epoch_loss)"
| "evaluate_batches rt model criterion (batch # rest) epoch_loss tr =
     (case calls rt (evaluate_step model criterion batch) tr of
        (tr', Some e) \<Rightarrow> (tr', Inl e)
      | (tr', None) \<Rightarrow>
          evaluate_batches rt model criterion rest (epoch_loss + item_value rt tr') tr')"

definition evaluate ::
  "('o, 'b) runtime \<Rightarrow> 'o \<Rightarrow> 'b list \<Rightarrow> 'o \<Rightarrow> ('o, 'b) call list \<Rightarrow>
     ('o, 'b) call list \<times> (pyerror + rat)" where
  "evaluate rt model iterator criterion tr =
     (case calls rt [Eval model] tr of
        (tr', Some e) \<Rightarrow> (tr', Inl e)
      | (tr', None) \<Rightarrow>
          (case evaluate_batches rt model criterion iterator 0 tr' of
             (tr'', Inl e) \<Rightarrow> (tr'', Inl e)
           | (tr'', Inr epoch_loss) \<Rightarrow>
               (if length iterator = 0 then (tr'', Inl ZeroDivisionError)
                else (tr'', Inr (epoch_loss / of_nat (length iterator))))))"

text \<open>
  \<^verbatim>\<open>
  N_EPOCHS = 10
  CLIP = 2
  for epoch in range(N_EPOCHS):
      start_time = time.time()
      train_loss = train(model, train_iterator, criterion, optimizer, CLIP)
      valid_loss = evaluate(model, valid_iterator, criterion)
      end_time = time.time()
      epoch_mins, epoch_secs = epoch_time(start_time, end_time)
      print(...)
  \<close>
  The clock and the printing are left out; an exception in an epoch ends the loop.
\<close>

definition N_EPOCHS :: nat where
  "N_EPOCHS = 10"

definition CLIP :: int where
  "CLIP = 2"

fun epochs ::
  "('o, 'b) runtime \<Rightarrow> 'o \<Rightarrow> 'b list \<Rightarrow> 'b list \<Rightarrow> 'o \<Rightarrow> 'o \<Rightarrow> nat list \<Rightarrow>
     ('o, 'b) call list \<Rightarrow> ('o, 'b) call list \<times> pyerror option" where
  "epochs rt model train_iterator valid_iterator criterion optimizer [] tr = (tr, None)"
| "epochs rt model train_iterator valid_iterator criterion optimizer (epoch # rest) tr =
     (case train rt model train_iterator criterion optimizer CLIP tr of
        (tr', Inl e) \<Rightarrow> (tr', Some e)
      | (tr', Inr train_loss) \<Rightarrow>
          (case evaluate rt model valid_iterator criterion tr' of
             (tr'', Inl e) \<Rightarrow> (tr'', Some e)
           | (tr'', Inr valid_loss) \<Rightarrow>
               epochs rt model train_iterator valid_iterator criterion optimizer rest tr''))"

definition training_loop ::
  "('o, 'b) runtime \<Rightarrow> 'o \<Rightarrow> 'b list \<Rightarrow> 'b list \<Rightarrow> 'o \<Rightarrow> 'o \<Rightarrow>
     ('o, 'b) call list \<times> pyerror option" where
  "training_loop rt model train_iterator valid_iterator criterion optimizer =
     epochs rt model train_iterator valid_iterator criterion optimizer [0..<N_EPOCHS] []"

text \<open>Kinds of calls, and the calls that are no \<open>step()\<close> on an object other than \<open>x\<close>.\<close>

primrec is_step :: "('o, 'b) call \<Rightarrow> bool" where
  "is_step (Train x) = False"
| "is_step (Eval x) = False"
| "is_step (Step x) = True"
| "is_step (ZeroGrad x) = False"
| "is_step (Apply x b) = False"
| "is_step (Backward b) = False"
| "is_step (ClipGradNorm x n) = False"
| "is_step (Item b) = False"

primrec is_zero_grad :: "('o, 'b) call \<Rightarrow> bool" where
  "is_zero_grad (Train x) = False"
| "is_zero_grad (Eval x) = False"
| "is_zero_grad (Step x) = False"
| "is_zero_grad (ZeroGrad x) = True"
| "is_zero_grad (Apply x b) = False"
| "is_zero_grad (Backward b) = False"
| "is_zero_grad (ClipGradNorm x n) = False"
| "is_zero_grad (Item b) = False"

primrec is_backward :: "('o, 'b) call \<Rightarrow> bool" where
  "is_backward (Train x) = False"
| "is_backward (Eval x) = False"
| "is_backward (Step x) = False"
| "is_backward (ZeroGrad x) = False"
| "is_backward (Apply x b) = False"
| "is_backward (Backward b) = True"
| "is_backward (ClipGradNorm x n) = False"
| "is_backward (Item b) = False"

definition steps_only_on :: "'o \<Rightarrow> ('o, 'b) call \<Rightarrow> bool" where
  "steps_only_on x c = (if is_step c then c = Step x else True)"

text \<open>A library in which no call raises and every loss is one.\<close>

definition quiet_runtime :: "(string, nat) runtime" where
  "quiet_runtime = \<lparr>raises = (\<lambda>tr c. None), item_value = (\<lambda>tr. 1)\<rparr>"

text \<open>
  A library in which only the optimizer has a \<open>step\<close> method and only the model and the
  criterion can be called, as for the objects the notebook names.
\<close>

definition strict_runtime :: "(string, nat) runtime" where
  "strict_runtime =
     \<lparr>raises = (\<lambda>tr c. case c of
                   Step o' \<Rightarrow> (if o' = ''optimizer'' then None else Some (AttributeError ''step''))
                 | Apply o' b \<Rightarrow> (if o' = ''optimizer'' then Some (TypeError ''object is not callable'') else None)
                 | Train o' \<Rightarrow> None
                 | Eval o' \<Rightarrow> None
                 | ZeroGrad o' \<Rightarrow> None
                 | Backward b \<Rightarrow> None
                 | ClipGradNorm o' n \<Rightarrow> None
                 | Item b \<Rightarrow> None),
      item_value = (\<lambda>tr. 1)\<rparr>"

section \<open>Properties\<close>

subsection \<open>Callable instances\<close>

lemma class_dict_Adder_call: "class_dict ''Adder'' ''__call__'' = Some Adder_call_fn"
  by (simp add: class_dict_def)

lemma class_dict_Adder_init: "class_dict ''Adder'' ''__init__'' = Some Adder_init_fn"
  by (simp add: class_dict_def)

lemma py_new_Adder:
  "py_new ''Adder'' [n] = Inr \<lparr>cls = ''Adder'', inst_dict = [''n'' \<mapsto> n]\<rparr>"
  by (simp add: py_new_def class_dict_Adder_init Adder_init_def py_setattr_def)

lemma py_call_Adder:
  "py_call \<lparr>cls = ''Adder'', inst_dict = [''n'' \<mapsto> n]\<rparr> [x] =
     (case py_add n x of
        Inl e \<Rightarrow> Inl e
      | Inr v \<Rightarrow> Inr (v, \<lparr>cls = ''Adder'', inst_dict = [''n'' \<mapsto> n]\<rparr>))"
  by (simp add: py_call_def class_dict_Adder_call Adder_call_def py_getattr_def)

lemma Adder_apply_add: "Adder_apply n x = py_add n x"
  by (simp add: Adder_apply_def py_new_Adder py_call_Adder split: sum.splits)

text \<open>
  C7. An \<open>Adder\<close> instance can be invoked directly: for all values \<open>n\<close> and \<open>x\<close>,
  \<open>Adder(n)(x)\<close> is \<open>n + x\<close> (the invocation is dispatched to \<open>__call__\<close>, which reads
  \<open>n\<close> back from the instance); on integers the result is their sum, and
  \<open>Adder(3)(4)\<close> is \<open>7\<close> as in the transcript.
\<close>

theorem Adder_instance_is_callable:
  "Adder_apply n x = py_add n x
   \<and> Adder_apply (PyInt a) (PyInt b) = Inr (PyInt (a + b))
   \<and> Adder_apply (PyInt 3) (PyInt 4) = Inr (PyInt 7)"
  by (simp add: Adder_apply_add)

subsection \<open>Bound and unbound calls\<close>

lemma class_dict_Person_set_name: "class_dict ''Person'' ''set_name'' = Some Person_set_name_fn"
  by (simp add: class_dict_def)

lemma class_dict_Person_init: "class_dict ''Person'' ''__init__'' = None"
  by (simp add: class_dict_def)

lemma py_new_Person: "py_new ''Person'' [] = Inr \<lparr>cls = ''Person'', inst_dict = Map.empty\<rparr>"
  by (simp add: py_new_def class_dict_Person_init)

lemma call_class_function_set_name:
  "call_class_function ''Person'' ''set_name'' p [n] =
     Inr (PyNone, p\<lparr>inst_dict := (inst_dict p)(''name'' \<mapsto> n)\<rparr>)"
  by (simp add: call_class_function_def class_dict_Person_set_name Person_set_name_def
      py_setattr_def)

lemma call_method_set_name:
  assumes "cls p = ''Person''" and "inst_dict p ''set_name'' = None"
  shows "call_method p ''set_name'' [n] =
     Inr (PyNone, p\<lparr>inst_dict := (inst_dict p)(''name'' \<mapsto> n)\<rparr>)"
  using assms
  by (simp add: call_method_def py_getattr_def class_dict_Person_set_name Person_set_name_def
      py_setattr_def)

lemma call_method_shadowed:
  assumes "inst_dict p name = Some v"
  shows "call_method p name args = Inl (TypeError ''object is not callable'')"
  using assms by (simp add: call_method_def py_getattr_def)

text \<open>
  C6, as stated, fails: for a \<open>Person\<close> instance whose instance dictionary has an entry
  \<open>set_name\<close>, the attribute \<open>p.set_name\<close> is that entry and not the method, so the bound
  call raises while the call through the class sets the name.
\<close>

theorem shadowed_set_name_counterexample:
  "call_method \<lparr>cls = ''Person'', inst_dict = [''set_name'' \<mapsto> PyStr ''x'']\<rparr>
       ''set_name'' [PyStr ''Alex'']
     \<noteq> call_class_function ''Person'' ''set_name''
         \<lparr>cls = ''Person'', inst_dict = [''set_name'' \<mapsto> PyStr ''x'']\<rparr> [PyStr ''Alex'']"
  by (simp add: call_method_shadowed call_class_function_set_name)

text \<open>
  C6, amended. For every \<open>Person\<close> instance \<open>p\<close> whose instance dictionary has no entry
  \<open>set_name\<close> and every value \<open>n\<close>, the bound call \<open>p.set_name(n)\<close> and the call
  \<open>Person.set_name(p, n)\<close> through the class are equivalent: each returns \<open>None\<close> and
  sets exactly the entry \<open>name\<close> of the instance dictionary to \<open>n\<close>. The instance
  they leave is again a \<open>Person\<close> without an entry \<open>set_name\<close>, so this holds for
  \<open>Person()\<close> and after any number of such calls.
\<close>

theorem bound_and_unbound_set_name:
  assumes "cls p = ''Person''" and "inst_dict p ''set_name'' = None"
  shows "call_method p ''set_name'' [n] = call_class_function ''Person'' ''set_name'' p [n]
       \<and> call_method p ''set_name'' [n]
           = Inr (PyNone, p\<lparr>inst_dict := (inst_dict p)(''name'' \<mapsto> n)\<rparr>)
       \<and> cls (p\<lparr>inst_dict := (inst_dict p)(''name'' \<mapsto> n)\<rparr>) = ''Person''
       \<and> inst_dict (p\<lparr>inst_dict := (inst_dict p)(''name'' \<mapsto> n)\<rparr>) ''set_name'' = None"
  using assms by (simp add: call_method_set_name call_class_function_set_name)

text \<open>
  The transcript: \<open>p = Person()\<close> has an empty dictionary, \<open>p.set_name('Alex')\<close> leaves
  \<open>{'name': 'Alex'}\<close>, and \<open>Person.set_name(p, 'John')\<close> then leaves \<open>{'name': 'John'}\<close>.
\<close>

theorem bound_and_unbound_set_name_witness:
  "py_new ''Person'' [] = Inr \<lparr>cls = ''Person'', inst_dict = Map.empty\<rparr>
   \<and> call_method \<lparr>cls = ''Person'', inst_dict = Map.empty\<rparr> ''set_name'' [PyStr ''Alex'']
       = Inr (PyNone, \<lparr>cls = ''Person'', inst_dict = [''name'' \<mapsto> PyStr ''Alex'']\<rparr>)
   \<and> call_class_function ''Person'' ''set_name''
         \<lparr>cls = ''Person'', inst_dict = [''name'' \<mapsto> PyStr ''Alex'']\<rparr> [PyStr ''John'']
       = Inr (PyNone, \<lparr>cls = ''Person'', inst_dict = [''name'' \<mapsto> PyStr ''John'']\<rparr>)"
proof -
  let ?p = "\<lparr>cls = ''Person'', inst_dict = Map.empty\<rparr>"
  let ?q = "\<lparr>cls = ''Person'', inst_dict = [''name'' \<mapsto> PyStr ''Alex'']\<rparr>"
  have p: "cls ?p = ''Person''" "inst_dict ?p ''set_name'' = None"
    by simp_all
  have q: "cls ?q = ''Person''" "inst_dict ?q ''set_name'' = None"
    by simp_all
  note first = bound_and_unbound_set_name [OF p, of "PyStr ''Alex''"]
  note second = bound_and_unbound_set_name [OF q, of "PyStr ''John''"]
  from first have bound: "call_method ?p ''set_name'' [PyStr ''Alex'']
        = Inr (PyNone, ?p\<lparr>inst_dict := (inst_dict ?p)(''name'' \<mapsto> PyStr ''Alex'')\<rparr>)"
    by blast
  from second have unbound: "call_class_function ''Person'' ''set_name'' ?q [PyStr ''John'']
        = Inr (PyNone, ?q\<lparr>inst_dict := (inst_dict ?q)(''name'' \<mapsto> PyStr ''John'')\<rparr>)"
    by metis
  show ?thesis
  proof (intro conjI)
    show "py_new ''Person'' [] = Inr ?p" by (rule py_new_Person)
    show "call_method ?p ''set_name'' [PyStr ''Alex''] = Inr (PyNone, ?q)"
      by (simp add: bound)
    show "call_class_function ''Person'' ''set_name'' ?q [PyStr ''John'']
        = Inr (PyNone, \<lparr>cls = ''Person'', inst_dict = [''name'' \<mapsto> PyStr ''John'']\<rparr>)"
      by (simp add: unbound)
  qed
qed

subsection \<open>Rounding to a double\<close>

lemma expo_bounds:
  assumes "x \<noteq> 0"
  shows "2 powi expo x \<le> \<bar>x\<bar> \<and> \<bar>x\<bar> < 2 powi (expo x + 1)"
proof -
  obtain n d where q: "quotient_of \<bar>x\<bar> = (n, d)"
    by (cases "quotient_of \<bar>x\<bar>")
  have d: "0 < d" using q by (rule quotient_of_denom_pos)
  have ax: "\<bar>x\<bar> = of_int n / of_int d" using q by (rule quotient_of_div)
  have "0 < \<bar>x\<bar>" using assms by simp
  then have n: "0 < n" using ax d by (simp add: zero_less_divide_iff)
  let ?k = "bitlen n - bitlen d"
  have bn: "2 ^ nat (bitlen n - 1) \<le> n" "n < 2 ^ nat (bitlen n)"
    using bitlen_bounds [OF n] by simp_all
  have bd: "2 ^ nat (bitlen d - 1) \<le> d" "d < 2 ^ nat (bitlen d)"
    using bitlen_bounds [OF d] by simp_all
  have pn: "1 \<le> bitlen n" using n by (simp add: bitlen_alt_def)
  have pd: "1 \<le> bitlen d" using d by (simp add: bitlen_alt_def)
  have cast: "(2::rat) powi j = of_int (2 ^ nat j)" if "0 \<le> j" for j
    using that by (simp add: power_int_nonneg_exp)
  have rn: "(2::rat) powi (bitlen n - 1) \<le> of_int n" "(of_int n :: rat) < 2 powi bitlen n"
    using bn pn by (simp_all only: cast of_int_le_iff of_int_less_iff)
  have rd: "(2::rat) powi (bitlen d - 1) \<le> of_int d" "(of_int d :: rat) < 2 powi bitlen d"
    using bd pd by (simp_all only: cast of_int_le_iff of_int_less_iff)
  have "(2::rat) powi (?k - 1) = 2 powi (bitlen n - 1) / 2 powi bitlen d"
    by (simp add: power_int_diff)
  also have "\<dots> \<le> of_int n / of_int d"
    using rn(1) rd(2) d n by (intro frac_le) simp_all
  finally have lo: "(2::rat) powi (?k - 1) \<le> \<bar>x\<bar>"
    by (simp add: ax)
  have "of_int n / of_int d < (2::rat) powi bitlen n / 2 powi (bitlen d - 1)"
    using rn(2) rd(1) n d by (intro frac_less) simp_all
  also have "\<dots> = 2 powi (?k + 1)"
    by (simp add: power_int_diff power_int_add)
  finally have hi: "\<bar>x\<bar> < (2::rat) powi (?k + 1)"
    by (simp add: ax)
  show ?thesis
    using lo hi q by (auto simp add: expo_def Let_def)
qed

lemma pow2_less_D: "(2::rat) powi a < 2 powi b \<Longrightarrow> a < b"
  using power_int_increasing [of b a "2::rat"] by (cases "a < b") simp_all

lemma pow2_mono: "a \<le> b \<Longrightarrow> (2::rat) powi a \<le> 2 powi b"
  by (rule power_int_increasing) simp_all

lemma expo_less:
  assumes "x \<noteq> 0" and "\<bar>x\<bar> < 2 powi k"
  shows "expo x < k"
proof -
  have "2 powi expo x \<le> \<bar>x\<bar>" using expo_bounds [OF assms(1)] by simp
  with assms(2) have "(2::rat) powi expo x < 2 powi k" by simp
  then show ?thesis by (rule pow2_less_D)
qed

lemma expo_ge:
  assumes "2 powi k \<le> \<bar>x\<bar>"
  shows "k \<le> expo x"
proof -
  have nz: "x \<noteq> 0"
  proof
    assume "x = 0"
    with assms have "(2::rat) powi k \<le> 0" by simp
    moreover have "(0::rat) < 2 powi k" by simp
    ultimately show False by linarith
  qed
  have "\<bar>x\<bar> < 2 powi (expo x + 1)" using expo_bounds [OF nz] by simp
  with assms have "(2::rat) powi k < 2 powi (expo x + 1)" by simp
  then have "k < expo x + 1" by (rule pow2_less_D)
  then show ?thesis by simp
qed

lemma expo_unique:
  assumes "2 powi e \<le> \<bar>x\<bar>" and "\<bar>x\<bar> < 2 powi (e + 1)"
  shows "expo x = e"
proof -
  have nz: "x \<noteq> 0"
  proof
    assume "x = 0"
    with assms(1) have "(2::rat) powi e \<le> 0" by simp
    moreover have "(0::rat) < 2 powi e" by simp
    ultimately show False by linarith
  qed
  have "e \<le> expo x" using assms(1) by (rule expo_ge)
  moreover have "expo x < e + 1" using nz assms(2) by (rule expo_less)
  ultimately show ?thesis by simp
qed

lemma round_half_even_error: "\<bar>of_int (round_half_even r) - r\<bar> \<le> 1 / 2"
proof -
  have "of_int \<lfloor>r\<rfloor> \<le> r" "r < of_int \<lfloor>r\<rfloor> + 1"
    using floor_correct [of r] by simp_all
  then show ?thesis
    by (auto simp add: round_half_even_def Let_def abs_le_iff)
qed

lemma round_half_even_of_int [simp]: "round_half_even (of_int n) = n"
  by (simp add: round_half_even_def)

lemma round_half_even_nonneg: "0 \<le> r \<Longrightarrow> 0 \<le> round_half_even r"
  by (auto simp add: round_half_even_def Let_def)

lemma ulp_pos: "0 < ulp x"
  by (simp add: ulp_def)

lemma fl_error: "\<bar>fl x - x\<bar> \<le> ulp x / 2"
proof -
  let ?u = "ulp x"
  have u: "0 < ?u" by (rule ulp_pos)
  have "fl x - x = (of_int (round_half_even (x / ?u)) - x / ?u) * ?u"
    using u by (simp add: fl_def algebra_simps)
  then have "\<bar>fl x - x\<bar> = \<bar>of_int (round_half_even (x / ?u)) - x / ?u\<bar> * ?u"
    using u by (simp add: abs_mult)
  also have "\<dots> \<le> (1 / 2) * ?u"
    using round_half_even_error [of "x / ?u"] u by (intro mult_right_mono) simp_all
  finally show ?thesis by simp
qed

lemma fl_nonneg: "0 \<le> x \<Longrightarrow> 0 \<le> fl x"
  using ulp_pos [of x] by (simp add: fl_def round_half_even_nonneg)

lemma fl_zero [simp]: "fl 0 = 0"
  by (simp add: fl_def round_half_even_def)

lemma fl_exact:
  assumes "x = of_int m * ulp x"
  shows "fl x = x"
proof -
  have "x / ulp x = of_int m"
    using assms ulp_pos [of x] by (simp add: field_simps)
  then show ?thesis
    using assms by (simp add: fl_def)
qed

lemma fl_representable:
  assumes x: "x = of_int m * 2 powi j" and m: "\<bar>m\<bar> \<le> 2 ^ 53" and j: "- 1074 \<le> j"
  shows "fl x = x"
proof (cases "m = 0")
  case True
  then show ?thesis using x by simp
next
  case False
  then have nz: "x \<noteq> 0" using x by simp
  have ax: "\<bar>x\<bar> = of_int \<bar>m\<bar> * 2 powi j"
    using x by (simp add: abs_mult)
  have "(of_int \<bar>m\<bar> :: rat) \<le> of_int (2 ^ 53)"
    using m by (simp only: of_int_le_iff)
  then have "of_int \<bar>m\<bar> \<le> (2::rat) ^ 53"
    by simp
  then have "\<bar>x\<bar> \<le> 2 ^ 53 * 2 powi j"
    unfolding ax by (intro mult_right_mono) simp_all
  also have "\<dots> = 2 powi (53 + j)"
    by (simp add: power_int_add)
  finally have le: "\<bar>x\<bar> \<le> 2 powi (53 + j)" .
  show ?thesis
  proof (cases "\<bar>x\<bar> = 2 powi (53 + j)")
    case True
    then have e: "expo x = 53 + j"
      by (intro expo_unique) (simp_all add: power_int_add)
    then have u: "ulp x = 2 powi (j + 1)"
      using j by (simp add: ulp_def max_def add.commute)
    have "x = of_int (sgn m * 2 ^ 52) * ulp x"
    proof -
      have "\<bar>m\<bar> = 2 ^ 53"
      proof -
        from True ax have "of_int \<bar>m\<bar> * 2 powi j = (2::rat) ^ 53 * 2 powi j"
          by (simp add: power_int_add)
        then have "(of_int \<bar>m\<bar> :: rat) = of_int (2 ^ 53)" by simp
        then show ?thesis
          by (simp only: of_int_eq_iff)
      qed
      then have "m = sgn m * 2 ^ 53"
        using mult_sgn_abs [of m] by simp
      then have "(of_int m :: rat) = of_int (sgn m * 2 ^ 53)"
        by simp
      then have "(of_int m :: rat) = of_int (sgn m) * 2 ^ 53"
        by simp
      then have eq: "x = of_int (sgn m * 2 ^ 52) * 2 powi (j + 1)"
        unfolding x by (simp add: power_int_add)
      show ?thesis
        unfolding u by (rule eq)
    qed
    then show ?thesis by (rule fl_exact)
  next
    case False
    with le have "\<bar>x\<bar> < 2 powi (53 + j)" by simp
    with nz have "expo x < 53 + j" by (rule expo_less)
    then have "max (expo x) (- 1022) - 52 \<le> j"
      using j by simp
    then have "0 \<le> j - (max (expo x) (- 1022) - 52)" by simp
    then obtain i where "j - (max (expo x) (- 1022) - 52) = int i"
      by (rule nonneg_int_cases)
    then have i: "max (expo x) (- 1022) - 52 = j - int i"
      by simp
    then have u: "ulp x = 2 powi (j - int i)"
      by (simp add: ulp_def)
    have eq: "x = of_int (m * 2 ^ i) * 2 powi (j - int i)"
      unfolding x by (simp add: power_int_diff)
    have "x = of_int (m * 2 ^ i) * ulp x"
      unfolding u by (rule eq)
    then show ?thesis by (rule fl_exact)
  qed
qed

lemma fl_eq:
  assumes "2 powi k \<le> \<bar>x\<bar>" and "\<bar>x\<bar> < 2 powi (k + 1)" and "- 1022 \<le> k"
    and "round_half_even (x / 2 powi (k - 52)) = m"
  shows "fl x = of_int m * 2 powi (k - 52)"
proof -
  have "expo x = k" using assms(1,2) by (rule expo_unique)
  then have "ulp x = 2 powi (k - 52)" using assms(3) by (simp add: ulp_def)
  then show ?thesis using assms(4) by (simp add: fl_def)
qed

lemma round_half_even_tie:
  "round_half_even (of_int f + 1 / 2) = (if even f then f else f + 1)"
proof -
  have "\<lfloor>rat_of_int f + 1 / 2\<rfloor> = f" by (simp add: floor_eq_iff)
  then show ?thesis by (simp add: round_half_even_def)
qed

lemma round_half_even_near:
  assumes "\<bar>r - of_int m\<bar> < 1 / 2"
  shows "round_half_even r = m"
proof (cases "of_int m \<le> r")
  case True
  then have "\<lfloor>r\<rfloor> = m" using assms by (simp add: floor_eq_iff)
  then show ?thesis using assms True by (simp add: round_half_even_def)
next
  case False
  then have "\<lfloor>r\<rfloor> = m - 1" using assms by (simp add: floor_eq_iff)
  then show ?thesis using assms False by (simp add: round_half_even_def)
qed

lemma fl_2_53_1: "fl 9007199254740993 = 9007199254740992"
proof -
  have "(9007199254740993::rat) / 2 powi (53 - 52) = of_int 4503599627370496 + 1 / 2" by simp
  then have "round_half_even (9007199254740993 / 2 powi (53 - 52)) = 4503599627370496"
    by (simp only: round_half_even_tie) simp
  with _ _ _ have "fl 9007199254740993 = of_int 4503599627370496 * 2 powi (53 - 52)"
    by (rule fl_eq) simp_all
  then show ?thesis by simp
qed

subsection \<open>Minutes and seconds of an epoch\<close>

lemma ulp_le:
  assumes "x \<noteq> 0" and "\<bar>x\<bar> < 2 powi k" and "- 1021 \<le> k"
  shows "ulp x \<le> 2 powi (k - 53)"
proof -
  have "expo x < k" using assms(1,2) by (rule expo_less)
  then have "max (expo x) (- 1022) - 52 \<le> k - 53" using assms(3) by simp
  then show ?thesis unfolding ulp_def by (rule pow2_mono)
qed

lemma floor_rounded_sixtieth:
  assumes x: "x = of_int M * 2 powi (- int i)" and M0: "0 \<le> M" and M: "M \<le> 2 ^ 53"
  shows "\<lfloor>fl (x / 60)\<rfloor> = \<lfloor>x / 60\<rfloor>"
proof -
  define u where "u = (2::rat) powi (- int i)"
  have u_pos: "0 < u" by (simp add: u_def)
  have inv: "u * 2 ^ i = 1" by (simp add: u_def power_int_minus)
  have u_le: "u \<le> 1"
    using one_le_power [of "2::rat" i] by (simp add: u_def power_int_minus field_simps)
  have xu: "x = of_int M * u" using x by (simp add: u_def)
  have x0: "0 \<le> x" using M0 u_pos by (simp add: xu)
  have "(of_int M :: rat) \<le> of_int (2 ^ 53)" using M by (simp only: of_int_le_iff)
  then have "(of_int M :: rat) \<le> 2 ^ 53" by simp
  then have xle: "x \<le> 2 ^ 53 * u"
    unfolding xu using u_pos by (intro mult_right_mono) simp_all
  define k where "k = \<lfloor>x / 60\<rfloor>"
  have kx: "of_int k * 60 \<le> x" and xk: "x < (of_int k + 1) * 60"
    using floor_correct [of "x / 60"] by (simp_all add: k_def field_simps)
  have k0: "0 \<le> k" using x0 by (simp add: k_def)
  have nonneg: "0 \<le> fl (x / 60)" using x0 by (intro fl_nonneg) simp
  have "of_int k \<le> fl (x / 60) \<and> fl (x / 60) < of_int k + 1"
  proof (cases "x \<le> 30")
    case True
    then have k: "k = 0" using x0 by (simp add: k_def floor_eq_iff)
    have "fl (x / 60) < 1"
    proof (cases "x = 0")
      case True
      then show ?thesis by simp
    next
      case False
      then have nz: "x / 60 \<noteq> 0" by simp
      have "\<bar>x / 60\<bar> < 2 powi 0" using True x0 by simp
      with nz have "ulp (x / 60) \<le> 2 powi (0 - 53)" by (rule ulp_le) simp
      moreover have "(2::rat) powi (0 - 53) \<le> 1 / 2" by (simp add: power_int_minus_divide)
      ultimately have "ulp (x / 60) \<le> 1 / 2" by (rule order_trans)
      moreover have "fl (x / 60) \<le> x / 60 + ulp (x / 60) / 2"
        using fl_error [of "x / 60"] by linarith
      ultimately show ?thesis using True by linarith
    qed
    with nonneg k show ?thesis by simp
  next
    case False
    then have big: "30 < x" by simp
    have "(2::rat) powi (- 49) < 2 powi (- int i)"
    proof -
      have "(2::rat) powi (- 49) * 2 ^ 53 < 30" by (simp add: power_int_minus_divide)
      also have "\<dots> < x" by (rule big)
      also have "\<dots> \<le> u * 2 ^ 53" using xle by (simp add: mult.commute)
      finally show ?thesis by (simp add: u_def)
    qed
    then have i: "int i < 49" using pow2_less_D by fastforce
    have nz: "x / 60 \<noteq> 0" using big by simp
    have "\<bar>x / 60\<bar> = x / 60" using x0 by simp
    also have "x / 60 \<le> 2 ^ 53 * u / 60" using xle by simp
    also have "\<dots> < 2 ^ 48 * u" using u_pos by simp
    also have "\<dots> = 2 powi (48 - int i)" by (simp add: u_def power_int_diff power_int_minus_divide)
    finally have "\<bar>x / 60\<bar> < 2 powi (48 - int i)" .
    with nz have "ulp (x / 60) \<le> 2 powi (48 - int i - 53)"
      by (rule ulp_le) (use i in simp)
    also have "\<dots> = u / 32"
      by (simp add: u_def power_int_diff power_int_minus_divide)
    finally have ulp: "ulp (x / 60) \<le> u / 32" .
    have err: "\<bar>fl (x / 60) - x / 60\<bar> \<le> u / 64"
      using fl_error [of "x / 60"] ulp by linarith
    define a where "a = 60 * (k + 1) * 2 ^ i - M"
    define b where "b = M - 60 * k * 2 ^ i"
    have "of_int a * u = (of_int k + 1) * 60 * (u * 2 ^ i) - of_int M * u"
      by (simp add: a_def algebra_simps)
    then have au: "of_int a * u = (of_int k + 1) * 60 - x"
      by (simp only: inv xu mult_1_right)
    have "of_int b * u = of_int M * u - of_int k * 60 * (u * 2 ^ i)"
      by (simp add: b_def algebra_simps)
    then have bu: "of_int b * u = x - of_int k * 60"
      by (simp only: inv xu mult_1_right)
    have "0 < of_int a * u" using xk by (simp add: au)
    then have "0 < a" using u_pos by (simp add: zero_less_mult_iff)
    then have "1 \<le> (of_int a :: rat)" by simp
    then have "u \<le> of_int a * u" using u_pos by simp
    then have "u \<le> (of_int k + 1) * 60 - x" by (simp only: au)
    then have gap: "x / 60 \<le> of_int k + 1 - u / 60" by (simp add: field_simps)
    have upper: "fl (x / 60) < of_int k + 1"
      using err gap u_pos by linarith
    have "0 \<le> of_int b * u" using kx by (simp add: bu)
    then have b0: "0 \<le> b" using u_pos by (simp add: zero_le_mult_iff)
    have lower: "of_int k \<le> fl (x / 60)"
    proof (cases "b = 0")
      case True
      then have "x / 60 = of_int k * 2 powi 0" using bu by simp
      moreover have "\<bar>k\<bar> \<le> 2 ^ 53"
      proof -
        have "(2::rat) ^ 53 * u \<le> 2 ^ 53 * 1"
          using u_le by (intro mult_left_mono) simp_all
        with kx xle have "of_int k * 60 \<le> (2::rat) ^ 53" by simp
        moreover have "(of_int k :: rat) \<le> of_int k * 60" using k0 by simp
        ultimately have "(of_int k :: rat) \<le> of_int (2 ^ 53)" by simp
        then show ?thesis using k0 by (simp only: of_int_le_iff abs_of_nonneg)
      qed
      ultimately have "fl (x / 60) = x / 60" by (rule fl_representable) simp
      then show ?thesis using True bu by simp
    next
      case False
      with b0 have "1 \<le> (of_int b :: rat)" by simp
      then have "u \<le> of_int b * u" using u_pos by simp
      then have "u \<le> x - of_int k * 60" by (simp only: bu)
      then have "of_int k + u / 60 \<le> x / 60" by (simp add: field_simps)
      then show ?thesis using err u_pos by linarith
    qed
    from lower upper show ?thesis ..
  qed
  then have "\<lfloor>fl (x / 60)\<rfloor> = k" by (simp add: floor_eq_iff)
  then show ?thesis by (simp add: k_def)
qed

lemma fl_grid:
  assumes z0: "0 \<le> z" and z: "z < 2 ^ 53"
  shows "\<exists>M i. fl z = of_int M * 2 powi (- int i) \<and> 0 \<le> M \<and> M \<le> 2 ^ 53 \<and> int i \<le> 1074"
proof (cases "z = 0")
  case True
  then have "fl z = of_int 0 * 2 powi (- int 0)" by simp
  then show ?thesis by (intro exI [of _ 0] exI [of _ "0::nat"]) simp
next
  case False
  have "\<bar>z\<bar> < 2 powi 53" using z0 z by simp
  with False have E: "expo z < 53" by (rule expo_less)
  define j where "j = max (expo z) (- 1022) - 52"
  define i where "i = nat (- j)"
  define M where "M = round_half_even (z / ulp z)"
  have j: "j \<le> 0" "- 1074 \<le> j" using E by (simp_all add: j_def)
  then have ji: "j = - int i" by (simp add: i_def)
  have u: "ulp z = 2 powi j" by (simp add: ulp_def j_def)
  have fl: "fl z = of_int M * 2 powi (- int i)" by (simp add: fl_def M_def u ji)
  have u_pos: "0 < ulp z" by (rule ulp_pos)
  have M0: "0 \<le> M" unfolding M_def using z0 u_pos by (intro round_half_even_nonneg) simp
  have "z < 2 powi (expo z + 1)" using expo_bounds [OF False] z0 by simp
  also have "\<dots> \<le> 2 powi (j + 53)" by (rule pow2_mono) (simp add: j_def)
  also have "\<dots> = 2 ^ 53 * ulp z" by (simp add: u power_int_add)
  finally have "z / ulp z < 2 ^ 53" using u_pos by (simp add: field_simps)
  moreover have "of_int M \<le> z / ulp z + 1 / 2"
    using round_half_even_error [of "z / ulp z"] unfolding M_def by linarith
  ultimately have "(of_int M :: rat) < of_int (2 ^ 53) + 1" by simp
  then have "(of_int M :: rat) < of_int (2 ^ 53 + 1)" by simp
  then have "M < 2 ^ 53 + 1" by (simp only: of_int_less_iff)
  then have "M \<le> 2 ^ 53" by simp
  with fl M0 j ji show ?thesis by (intro exI [of _ M] exI [of _ i]) simp
qed

lemma rounded_sixtieth_bounds:
  assumes x: "x = of_int M * 2 powi (- int i)" and M0: "0 \<le> M" and M: "M \<le> 2 ^ 53"
  shows "0 \<le> fl (x / 60) \<and> fl (x / 60) < 2 ^ 1024 \<and> trunc (fl (x / 60)) = \<lfloor>x / 60\<rfloor>"
proof -
  have u_pos: "0 < (2::rat) powi (- int i)" by simp
  have u_le: "(2::rat) powi (- int i) \<le> 1"
    using one_le_power [of "2::rat" i] by (simp add: power_int_minus field_simps)
  have x0: "0 \<le> x" using M0 by (simp add: x)
  have "(of_int M :: rat) \<le> of_int (2 ^ 53)" using M by (simp only: of_int_le_iff)
  then have Mle: "(of_int M :: rat) \<le> 2 ^ 53" by simp
  have "of_int M * 2 powi (- int i) \<le> (2::rat) ^ 53 * 1"
    using Mle u_le by (rule mult_mono) (use u_pos in simp_all)
  then have "x \<le> 2 ^ 53" by (simp only: x mult_1_right)
  moreover have "x / 60 \<le> x" using x0 by simp
  ultimately have xle: "x / 60 \<le> 2 ^ 53" by linarith
  have nonneg: "0 \<le> fl (x / 60)" using x0 by (intro fl_nonneg) simp
  have fl: "\<lfloor>fl (x / 60)\<rfloor> = \<lfloor>x / 60\<rfloor>" using assms by (rule floor_rounded_sixtieth)
  have "fl (x / 60) < of_int \<lfloor>fl (x / 60)\<rfloor> + 1" by linarith
  also have "\<dots> \<le> x / 60 + 1" unfolding fl using of_int_floor_le [of "x / 60"] by linarith
  also have "\<dots> \<le> 2 ^ 53 + 1" using xle by simp
  also have "\<dots> < (2::rat) ^ 1024" by simp
  finally have "fl (x / 60) < 2 ^ 1024" .
  with nonneg fl show ?thesis by (simp add: trunc_def)
qed

lemma epoch_time_of_ints:
  assumes "0 \<le> e - s" and "e - s < 2 ^ 53"
  shows "epoch_time (PInt s) (PInt e) = Inr ((e - s) div 60, PInt ((e - s) mod 60))"
proof -
  define d where "d = e - s"
  have "rat_of_int d = of_int d * 2 powi (- int 0)" by simp
  moreover have "0 \<le> d" "d \<le> 2 ^ 53" using assms by (simp_all add: d_def)
  ultimately have b: "0 \<le> fl (of_int d / 60) \<and> fl (of_int d / 60) < 2 ^ 1024
      \<and> trunc (fl (of_int d / 60)) = \<lfloor>rat_of_int d / 60\<rfloor>"
    by (rule rounded_sixtieth_bounds)
  have "\<lfloor>rat_of_int d / 60\<rfloor> = d div 60"
    using floor_divide_of_int_eq [of d 60, where ?'a = rat] by simp
  with b have t: "trunc (fl (of_int d / 60)) = d div 60" by simp
  have "d - d div 60 * 60 = d mod 60" by (simp add: minus_div_mult_eq_mod)
  with b t show ?thesis
    by (simp add: epoch_time_def Let_def d_def [symmetric])
qed

lemma epoch_time_of_floats:
  assumes "s \<le> e" and "e - s < 2 ^ 53"
  shows "epoch_time (PFloat (Finite s)) (PFloat (Finite e)) =
           Inr (\<lfloor>fl (e - s) / 60\<rfloor>,
                PFloat (Finite (fl (e - s) - of_int (\<lfloor>fl (e - s) / 60\<rfloor> * 60))))"
proof -
  define x where "x = fl (e - s)"
  define k where "k = \<lfloor>x / 60\<rfloor>"
  obtain M i where xM: "x = of_int M * 2 powi (- int i)" and M0: "0 \<le> M"
    and M: "M \<le> 2 ^ 53" and i: "int i \<le> 1074"
    using fl_grid [of "e - s"] assms unfolding x_def by auto
  define u where "u = (2::rat) powi (- int i)"
  have u_pos: "0 < u" by (simp add: u_def)
  have u_le: "u \<le> 1"
    using one_le_power [of "2::rat" i] by (simp add: u_def power_int_minus field_simps)
  have inv: "u * 2 ^ i = 1" by (simp add: u_def power_int_minus)
  have xu: "x = of_int M * u" by (simp add: xM u_def)
  have x0: "0 \<le> x" using M0 u_pos by (simp add: xu)
  have Mle: "(of_int M :: rat) \<le> 2 ^ 53"
  proof -
    have "(of_int M :: rat) \<le> of_int (2 ^ 53)" using M by (simp only: of_int_le_iff)
    then show ?thesis by simp
  qed
  have "of_int M * u \<le> (2::rat) ^ 53 * 1"
    using Mle u_le by (rule mult_mono) (use u_pos in simp_all)
  then have xle: "x \<le> 2 ^ 53" by (simp only: xu mult_1_right)
  have sub: "float_sub (Finite e) (Finite s) = Finite x"
    using x0 xle by (simp add: round_float_def x_def [symmetric])
  have b: "0 \<le> fl (x / 60) \<and> fl (x / 60) < 2 ^ 1024 \<and> trunc (fl (x / 60)) = k"
    unfolding k_def using xM M0 M by (rule rounded_sixtieth_bounds)
  have f60: "float_of_int 60 = Inr 60"
  proof -
    have "fl 60 = 60" by (rule fl_representable [of _ 60 0]) simp_all
    then show ?thesis by (simp add: float_of_int_def)
  qed
  have div: "py_truediv (PFloat (Finite x)) 60 = Inr (PFloat (Finite (fl (x / 60))))"
    using b by (simp add: f60 round_float_def)
  have k0: "0 \<le> k" using x0 by (simp add: k_def)
  have kx: "of_int k * 60 \<le> x"
    using floor_correct [of "x / 60"] by (simp add: k_def field_simps)
  have xk: "x < (of_int k + 1) * 60"
    using floor_correct [of "x / 60"] by (simp add: k_def field_simps)
  have k60: "(of_int (k * 60) :: rat) \<le> 2 ^ 53" using kx xle by simp
  have fk: "float_of_int (k * 60) = Inr (of_int (k * 60))"
  proof -
    have "(of_int (k * 60) :: rat) \<le> of_int (2 ^ 53)" using k60 by simp
    then have "k * 60 \<le> 2 ^ 53" by (simp only: of_int_le_iff)
    then have "\<bar>k * 60\<bar> \<le> 2 ^ 53" using k0 by simp
    with refl [of "rat_of_int (k * 60) * 2 powi 0"]
    have "fl (of_int (k * 60) * 2 powi 0) = of_int (k * 60) * 2 powi 0"
      by (rule fl_representable) simp
    then have "fl (of_int (k * 60)) = of_int (k * 60)" by simp
    moreover have "\<bar>rat_of_int (k * 60)\<bar> < 2 ^ 1024"
    proof -
      have "\<bar>rat_of_int (k * 60)\<bar> = of_int (k * 60)" using k0 by simp
      also have "\<dots> \<le> 2 ^ 53" by (rule k60)
      also have "\<dots> < (2::rat) ^ 1024" by simp
      finally show ?thesis .
    qed
    ultimately show ?thesis by (simp add: float_of_int_def)
  qed
  define r where "r = x - of_int (k * 60)"
  define c where "c = M - k * 60 * 2 ^ i"
  have "of_int c * u = of_int M * u - of_int (k * 60) * (u * 2 ^ i)"
    by (simp add: c_def algebra_simps)
  then have cu: "of_int c * u = r" by (simp only: inv xu r_def mult_1_right)
  have r0: "0 \<le> r" using kx by (simp add: r_def)
  have rx: "r \<le> x" using k0 by (simp add: r_def)
  have "0 \<le> of_int c * u" using r0 by (simp only: cu)
  then have c0: "0 \<le> c" using u_pos by (simp add: zero_le_mult_iff)
  have "of_int c * u \<le> of_int M * u" using rx by (simp only: cu xu)
  then have "c \<le> M" using u_pos by simp
  with c0 M have "\<bar>c\<bar> \<le> 2 ^ 53" by simp
  with cu [symmetric, unfolded u_def] have "fl r = r"
    by (rule fl_representable) (use i in simp)
  moreover have "r < 2 ^ 1024"
  proof -
    note rx
    also note xle
    also have "(2::rat) ^ 53 < 2 ^ 1024" by simp
    finally show ?thesis .
  qed
  ultimately have "round_float r = Finite r"
    using r0 by (simp add: round_float_def)
  then have sub2: "float_sub (Finite x) (Finite (of_int (k * 60))) = Finite r"
    by (simp only: float_sub.simps r_def)
  have elapsed: "py_sub (PFloat (Finite e)) (PFloat (Finite s)) = Inr (PFloat (Finite x))"
    by (simp only: py_sub.simps sub)
  have mins: "py_int (PFloat (Finite (fl (x / 60)))) = Inr k" using b by simp
  have secs: "py_sub (PFloat (Finite x)) (PInt (k * 60)) = Inr (PFloat (Finite r))"
    by (simp only: py_sub.simps fk sum.case sub2)
  show ?thesis
    unfolding x_def [symmetric] k_def [symmetric] r_def [symmetric]
    by (simp only: epoch_time_def elapsed div mins secs sum.case)
qed

lemma epoch_time_seconds_range:
  "0 \<le> x - of_int (\<lfloor>x / 60\<rfloor> * 60) \<and> x - of_int (\<lfloor>x / 60\<rfloor> * 60) < (60::rat)"
  using floor_correct [of "x / 60"] by (simp add: field_simps)

lemma epoch_time_long_epoch:
  "epoch_time (PInt 0) (PInt 540431955284459580) = Inr (9007199254740992, PInt 60)"
  by (simp add: epoch_time_def fl_2_53_1 trunc_def)

lemma fl_three_tenths:
  "fl (3602879701896397 / 2 ^ 53 - 3602879701896397 / 2 ^ 55) = 1351079888211149 / 2 ^ 52"
proof -
  let ?x = "3602879701896397 / 2 ^ 53 - 3602879701896397 / 2 ^ 55 :: rat"
  have "?x / 2 powi (- 2 - 52) = of_int 5404319552844595 + 1 / 2"
    by (simp add: power_int_minus_divide)
  then have "round_half_even (?x / 2 powi (- 2 - 52)) = 5404319552844596"
    by (simp only: round_half_even_tie) simp
  with _ _ _ have "fl ?x = of_int 5404319552844596 * 2 powi (- 2 - 52)"
    by (rule fl_eq) (simp_all add: power_int_minus_divide)
  then show ?thesis by (simp add: power_int_minus_divide)
qed

lemma epoch_time_three_tenths:
  "epoch_time (PFloat (Finite (3602879701896397 / 2 ^ 55)))
       (PFloat (Finite (3602879701896397 / 2 ^ 53)))
     = Inr (0, PFloat (Finite (1351079888211149 / 2 ^ 52)))"
proof -
  let ?s = "3602879701896397 / 2 ^ 55 :: rat" and ?e = "3602879701896397 / 2 ^ 53 :: rat"
  have m: "\<lfloor>(1351079888211149 / 2 ^ 52 :: rat) / 60\<rfloor> = 0" by (simp add: floor_eq_iff)
  have "epoch_time (PFloat (Finite ?s)) (PFloat (Finite ?e))
      = Inr (\<lfloor>fl (?e - ?s) / 60\<rfloor>,
             PFloat (Finite (fl (?e - ?s) - of_int (\<lfloor>fl (?e - ?s) / 60\<rfloor> * 60))))"
    by (rule epoch_time_of_floats) simp_all
  then have "epoch_time (PFloat (Finite ?s)) (PFloat (Finite ?e))
      = Inr (0, PFloat (Finite (1351079888211149 / 2 ^ 52 - of_int (0 * 60))))"
    by (simp only: fl_three_tenths m)
  then show ?thesis by (simp only: mult_zero_left of_int_0 diff_zero)
qed

text \<open>
  C10, as stated, fails. The quotient \<open>elapsed_time / 60\<close> is a float, also for two
  \<open>int\<close>s. For the times 0 and \<open>60 * (2 ^ 53 + 1)\<close> the exact quotient \<open>2 ^ 53 + 1\<close>
  is no double and rounds to \<open>2 ^ 53\<close>: the function returns \<open>2 ^ 53\<close> minutes, which is
  not the integer part of the exact quotient, and 60 seconds, which is not below 60. For
  the doubles nearest to one tenth and to four tenths the float subtraction rounds: the
  minutes and seconds returned do not add up to the exact difference of the two times.
\<close>

theorem epoch_time_rounding_counterexample:
  "(0::int) \<le> 540431955284459580
   \<and> epoch_time (PInt 0) (PInt 540431955284459580) = Inr (9007199254740992, PInt 60)
   \<and> (9007199254740992::int) \<noteq> \<lfloor>(540431955284459580 - 0) / 60 :: rat\<rfloor>
   \<and> \<not> (60::int) < 60
   \<and> (3602879701896397 / 2 ^ 55 :: rat) \<le> 3602879701896397 / 2 ^ 53
   \<and> epoch_time (PFloat (Finite (3602879701896397 / 2 ^ 55)))
         (PFloat (Finite (3602879701896397 / 2 ^ 53)))
       = Inr (0, PFloat (Finite (1351079888211149 / 2 ^ 52)))
   \<and> of_int 0 * 60 + 1351079888211149 / 2 ^ 52
       \<noteq> (3602879701896397 / 2 ^ 53 - 3602879701896397 / 2 ^ 55 :: rat)"
  using epoch_time_long_epoch epoch_time_three_tenths by simp

text \<open>
  C10, amended. For two \<open>int\<close>s with \<open>0 \<le> end_time - start_time < 2 ^ 53\<close> the claim
  holds as it is stated: \<open>epoch_time\<close> returns the quotient and the remainder of the
  elapsed time by sixty. For two finite floats with \<open>start_time \<le> end_time\<close> and
  \<open>end_time - start_time < 2 ^ 53\<close> it holds of the elapsed time the code computes, the
  double \<open>d\<close> nearest to \<open>end_time - start_time\<close>: the minutes are the integer part of
  \<open>d / 60\<close>, minutes times sixty plus seconds is \<open>d\<close> exactly, the seconds lie in
  \<open>[0, 60)\<close>, and \<open>d\<close> is within half a unit in the last place of the exact difference.
\<close>

theorem epoch_time_minutes_seconds:
  "(0 \<le> e - s \<and> e - s < 2 ^ 53 \<longrightarrow>
      epoch_time (PInt s) (PInt e) = Inr ((e - s) div 60, PInt ((e - s) mod 60))
      \<and> (e - s) div 60 = \<lfloor>rat_of_int (e - s) / 60\<rfloor>
      \<and> (e - s) div 60 * 60 + (e - s) mod 60 = e - s
      \<and> 0 \<le> (e - s) mod 60 \<and> (e - s) mod 60 < 60)
   \<and> (a \<le> b \<and> b - a < 2 ^ 53 \<longrightarrow>
      (\<exists>secs. epoch_time (PFloat (Finite a)) (PFloat (Finite b))
                 = Inr (\<lfloor>fl (b - a) / 60\<rfloor>, PFloat (Finite secs))
         \<and> of_int \<lfloor>fl (b - a) / 60\<rfloor> * 60 + secs = fl (b - a)
         \<and> 0 \<le> secs \<and> secs < 60)
      \<and> \<bar>fl (b - a) - (b - a)\<bar> \<le> ulp (b - a) / 2)"
proof (intro conjI impI)
  assume "0 \<le> e - s \<and> e - s < 2 ^ 53"
  then show "epoch_time (PInt s) (PInt e) = Inr ((e - s) div 60, PInt ((e - s) mod 60))"
    by (simp add: epoch_time_of_ints)
next
  show "(e - s) div 60 = \<lfloor>rat_of_int (e - s) / 60\<rfloor>"
    using floor_divide_of_int_eq [of "e - s" 60, where ?'a = rat] by simp
next
  show "(e - s) div 60 * 60 + (e - s) mod 60 = e - s" by simp
next
  show "0 \<le> (e - s) mod 60" by simp
next
  show "(e - s) mod 60 < 60" by simp
next
  assume ab: "a \<le> b \<and> b - a < 2 ^ 53"
  let ?d = "fl (b - a)"
  have "epoch_time (PFloat (Finite a)) (PFloat (Finite b))
      = Inr (\<lfloor>?d / 60\<rfloor>, PFloat (Finite (?d - of_int (\<lfloor>?d / 60\<rfloor> * 60))))"
    using ab by (simp only: epoch_time_of_floats)
  moreover have "of_int \<lfloor>?d / 60\<rfloor> * 60 + (?d - of_int (\<lfloor>?d / 60\<rfloor> * 60)) = ?d" by simp
  moreover have "0 \<le> ?d - of_int (\<lfloor>?d / 60\<rfloor> * 60) \<and> ?d - of_int (\<lfloor>?d / 60\<rfloor> * 60) < 60"
    by (rule epoch_time_seconds_range)
  ultimately show "\<exists>secs. epoch_time (PFloat (Finite a)) (PFloat (Finite b))
                 = Inr (\<lfloor>?d / 60\<rfloor>, PFloat (Finite secs))
         \<and> of_int \<lfloor>?d / 60\<rfloor> * 60 + secs = ?d \<and> 0 \<le> secs \<and> secs < 60"
    by blast
next
  show "\<bar>fl (b - a) - (b - a)\<bar> \<le> ulp (b - a) / 2" by (rule fl_error)
qed

text \<open>
  An epoch of 125 seconds between two \<open>int\<close>s, and one of 150 seconds between the floats
  \<open>0.5\<close> and \<open>150.5\<close>.
\<close>

theorem epoch_time_minutes_seconds_witness:
  "(0::int) \<le> 125 - 0 \<and> (125 - 0 :: int) < 2 ^ 53
   \<and> epoch_time (PInt 0) (PInt 125) = Inr (2, PInt 5)
   \<and> (1 / 2 :: rat) \<le> 301 / 2 \<and> (301 / 2 - 1 / 2 :: rat) < 2 ^ 53
   \<and> epoch_time (PFloat (Finite (1 / 2))) (PFloat (Finite (301 / 2)))
       = Inr (2, PFloat (Finite 30))"
proof -
  have d: "fl (301 / 2 - 1 / 2) = 150"
  proof -
    have "fl (of_int 150 * 2 powi 0) = of_int 150 * 2 powi 0"
      by (rule fl_representable [OF refl]) simp_all
    then show ?thesis by simp
  qed
  have m: "\<lfloor>(150::rat) / 60\<rfloor> = 2" by (simp add: floor_eq_iff)
  note epoch_time_minutes_seconds
    [where s = 0 and e = 125 and a = "1 / 2" and b = "301 / 2", unfolded d m]
  then show ?thesis by auto
qed

subsection \<open>Names the notebook binds\<close>

lemma shipped_names_eq:
  "shipped_names =
    [''time'', ''math'', ''random'', ''spacy'', ''np'', ''torch'', ''nn'',
     ''optim'', ''Multi30k'', ''Field'', ''BucketIterator'', ''spacy_de'',
     ''spacy_en'', ''tokenize_de'', ''tokenize_en'', ''SRC'', ''TRG'',
     ''train_data'', ''valid_data'', ''test_data'', ''device'', ''BATCH_SIZE'',
     ''train_iterator'', ''valid_iterator'', ''test_iterator'', ''temp'',
     ''Encoder'', ''Decoder'', ''Seq2Seq'', ''encoder'', ''decoder'',
     ''model'', ''init_weights'', ''count_parameters'', ''optimizer'',
     ''criterion'', ''train'', ''evaluate'', ''epoch_time'', ''N_EPOCHS'',
     ''CLIP'', ''best_valid_loss'', ''epoch'', ''start_time'', ''train_loss'',
     ''valid_loss'', ''end_time'', ''epoch_mins'', ''epoch_secs'']"
  by (simp add: shipped_names_def notebook_cells_def cell_binds_def imports_cell_def
      hyperparameter_cell_def training_loop_cell_def)

lemma hyperparameter_cell_binds: "cell_binds hyperparameter_cell = []"
  by (simp add: cell_binds_def hyperparameter_cell_def)

lemma shipped_tokens: "shipped_namespace ''tokens'' = None"
  by (simp add: shipped_namespace_def shipped_names_eq)

lemma shipped_torch: "shipped_namespace ''torch'' = Some (VObj ''torch'')"
  by (simp add: shipped_namespace_def shipped_names_eq)

lemma shipped_trg_len: "shipped_namespace ''trg_len'' = None"
  by (simp add: shipped_namespace_def shipped_names_eq)

lemma shipped_batch_size: "shipped_namespace ''batch_size'' = None"
  by (simp add: shipped_namespace_def shipped_names_eq)

lemma shipped_trg_vocab_size: "shipped_namespace ''trg_vocab_size'' = None"
  by (simp add: shipped_namespace_def shipped_names_eq)

lemma shipped_decoder_input: "shipped_namespace ''decoder_input'' = None"
  by (simp add: shipped_namespace_def shipped_names_eq)

lemma shipped_hyperparameters:
  "shipped_namespace ''INPUT_DIM'' = None \<and> shipped_namespace ''OUTPUT_DIM'' = None
   \<and> shipped_namespace ''ENC_EMB_DIM'' = None \<and> shipped_namespace ''DEC_EMB_DIM'' = None
   \<and> shipped_namespace ''HID_DIM'' = None"
  by (simp add: shipped_namespace_def shipped_names_eq)

subsection \<open>Tokenizers\<close>

lemma tokenize_de_unbound: "g ''tokens'' = None \<Longrightarrow> tokenize_de g text = Inl (NameError ''tokens'')"
  by (simp add: tokenize_de_def load_global_def)

lemma tokenize_en_unbound: "g ''tokens'' = None \<Longrightarrow> tokenize_en g text = Inl (NameError ''tokens'')"
  by (simp add: tokenize_en_def load_global_def)

text \<open>
  C5. No cell of the notebook binds \<open>tokens\<close>, and for every input string
  \<open>tokenize_de\<close> and \<open>tokenize_en\<close> raise \<open>NameError\<close> instead of returning a token
  list: in the namespace of the notebook as shipped, and in every namespace in which
  \<open>tokens\<close> is unbound.
\<close>

theorem tokenizers_fail_as_shipped:
  "(shipped_namespace :: 't namespace) ''tokens'' = None
   \<and> tokenize_de (shipped_namespace :: 't namespace) text = Inl (NameError ''tokens'')
   \<and> tokenize_en (shipped_namespace :: 't namespace) text = Inl (NameError ''tokens'')
   \<and> ((g :: 't namespace) ''tokens'' = None \<longrightarrow>
        tokenize_de g text = Inl (NameError ''tokens'')
        \<and> tokenize_en g text = Inl (NameError ''tokens''))"
  by (simp add: shipped_tokens tokenize_de_unbound tokenize_en_unbound)

text \<open>In the namespace with every name of the notebook bound, a German sentence is not tokenized.\<close>

theorem tokenizers_fail_as_shipped_witness:
  "(shipped_namespace :: int list namespace) ''tokens'' = None
   \<and> tokenize_de (shipped_namespace :: int list namespace) ''guten morgen''
       = Inl (NameError ''tokens'')
   \<and> tokenize_en (shipped_namespace :: int list namespace) ''good morning''
       = Inl (NameError ''tokens'')"
  using tokenizers_fail_as_shipped [of "''guten morgen''" "shipped_namespace :: int list namespace"]
    tokenizers_fail_as_shipped [of "''good morning''" "shipped_namespace :: int list namespace"]
  by simp

subsection \<open>The forward pass of Seq2Seq\<close>

lemma forward_shipped:
  "Seq2Seq_forward L shipped_namespace self src trg st = Inl (NameError ''trg_len'')"
  by (simp add: Seq2Seq_forward_def load_global_def shipped_trg_len shipped_torch)

lemma forward_needs_names:
  assumes "g ''trg_len'' = None \<or> g ''batch_size'' = None \<or> g ''trg_vocab_size'' = None"
  shows "isl (Seq2Seq_forward L g self src trg st)"
  using assms
  by (auto simp add: Seq2Seq_forward_def load_global_def split: option.splits sum.splits)

lemma forward_cong:
  assumes "encoder self src st = encoder self' src' st'"
    and "\<And>steps outs h t. decode_steps L g self steps outs h t = decode_steps L g self' steps outs h t"
  shows "Seq2Seq_forward L g self src trg st = Seq2Seq_forward L g self' src' trg' st'"
  unfolding Seq2Seq_forward_def
  by (simp add: assms cong: sum.case_cong)

lemma forward_ignores_trg:
  "Seq2Seq_forward L g self src trg st = Seq2Seq_forward L g self src trg' st"
  by (rule forward_cong) simp_all

lemma forward_through_encoder:
  assumes "encoder self src st = encoder self src' st"
  shows "Seq2Seq_forward L g self src trg st = Seq2Seq_forward L g self src' trg st"
  using assms by (rule forward_cong) simp

lemma Encoder_forward_hidden:
  assumes "enc_embedding E = Some embedding" and "embedding src st = Inr (x, st')"
    and "enc_dropout E x st' = Inr (y, sb)" and "enc_rnn E = Some rnn"
    and "rnn y sb = Inr ((outs, h), sc)"
  shows "Encoder_forward E src st = Inr (h, sc)"
  using assms by (simp add: Encoder_forward_def)

lemma Encoder_forward_size:
  assumes "enc_rnn E = Some rnn"
    and "\<forall>y t outs h ta. rnn y t = Inr ((outs, h), ta) \<longrightarrow> sz h = k"
    and "Encoder_forward E src st = Inr (c, st')"
  shows "sz c = k"
proof -
  have "\<exists>y t outs. rnn y t = Inr ((outs, c), st')"
    using assms(1,3)
    by (auto simp add: Encoder_forward_def split: option.splits sum.splits prod.splits)
  with assms(2) show ?thesis by blast
qed

lemma forward_starts_from_encoder:
  assumes "g ''torch'' = Some m" and "g ''trg_len'' = Some (VInt n)"
    and "g ''batch_size'' = Some b" and "g ''trg_vocab_size'' = Some v"
    and "zeros L (VInt n) b v = Inr z" and "g ''device'' = Some dev"
    and "to_device L z dev = Inr outs" and "encoder self src st = Inr (h, st')"
  shows "Seq2Seq_forward L g self src trg st = decode_steps L g self [1..n - 1] outs h st'"
  using assms by (simp add: Seq2Seq_forward_def load_global_def py_range_def)

lemma forward_first_step:
  assumes "g ''torch'' = Some m" and "g ''trg_len'' = Some (VInt n)" and "2 \<le> n"
    and "g ''batch_size'' = Some b" and "g ''trg_vocab_size'' = Some v"
    and "zeros L (VInt n) b v = Inr z" and "g ''device'' = Some dev"
    and "to_device L z dev = Inr outs" and "g ''decoder_input'' = Some d"
    and "encoder self src st = Inr (h, st')"
  shows "Seq2Seq_forward L g self src trg st =
     (case decoder self d h st' of
        Inl e \<Rightarrow> Inl e
      | Inr ((output, h'), sb) \<Rightarrow>
     (case setitem L outs 1 output of
        Inl e \<Rightarrow> Inl e
      | Inr outs' \<Rightarrow> decode_steps L g self [2..n - 1] outs' h' sb))"
proof -
  have "[1..n - 1] = 1 # [2..n - 1]"
    using assms(3) by (simp add: upto_rec1)
  moreover have "Seq2Seq_forward L g self src trg st = decode_steps L g self [1..n - 1] outs h st'"
    using assms(1,2,4-8,10) by (rule forward_starts_from_encoder)
  ultimately show ?thesis
    using assms(9) by (simp add: load_global_def)
qed

lemma completed_namespace_values:
  "completed_namespace ''torch'' = Some (VObj ''torch'')"
  "completed_namespace ''device'' = Some (VObj ''cpu'')"
  "completed_namespace ''trg_len'' = Some (VInt 3)"
  "completed_namespace ''batch_size'' = Some (VInt 1)"
  "completed_namespace ''trg_vocab_size'' = Some (VInt 1)"
  "completed_namespace ''decoder_input'' = Some (VTensor [5])"
  by (simp_all add: completed_namespace_def)

lemma steps_of_three: "[1..(3::int) - 1] = [1, 2]"
  by (simp add: upto.simps)

lemma list_torch_outputs:
  "zeros list_torch (VInt 3) (VInt 1) (VInt 1) = Inr [0, 0, 0]"
  "to_device list_torch [0, 0, 0] (VObj ''cpu'') = Inr [0, 0, 0]"
  by (simp_all add: list_torch_def numeral_3_eq_3)

lemma forward_completed:
  assumes "enc src st = Inr (h, st')"
  shows "Seq2Seq_forward list_torch completed_namespace \<lparr>encoder = enc, decoder = dec\<rparr> src trg st
       = decode_steps list_torch completed_namespace \<lparr>encoder = enc, decoder = dec\<rparr>
           [1, 2] [0, 0, 0] h st'"
proof -
  have "Seq2Seq_forward list_torch completed_namespace \<lparr>encoder = enc, decoder = dec\<rparr> src trg st
      = decode_steps list_torch completed_namespace \<lparr>encoder = enc, decoder = dec\<rparr>
          [1..3 - 1] [0, 0, 0] h st'"
    by (rule forward_starts_from_encoder [where m = "VObj ''torch''" and b = "VInt 1"
          and v = "VInt 1" and z = "[0, 0, 0]" and dev = "VObj ''cpu''"])
       (simp_all add: completed_namespace_values list_torch_outputs assms)
  then show ?thesis
    by (simp only: steps_of_three)
qed

lemma decode_probe:
  "decode_steps list_torch completed_namespace \<lparr>encoder = enc, decoder = probe_decoder\<rparr>
     [1, 2] [0, 0, 0] [k] st = Inr ([0, 50 + k, 51 + k], st)"
  by (simp add: load_global_def completed_namespace_values list_torch_def probe_decoder_def)

lemma forward_probe:
  assumes "enc src st = Inr ([k], st')"
  shows "Seq2Seq_forward list_torch completed_namespace \<lparr>encoder = enc, decoder = probe_decoder\<rparr>
     src trg st = Inr ([0, 50 + k, 51 + k], st')"
  using assms by (simp only: forward_completed decode_probe)

lemma teacher_forced_probe:
  "teacher_forced_steps \<lparr>encoder = enc, decoder = probe_decoder\<rparr> [1, 7, 9] [1, 2] [0, 0, 0] [3] st
     = Inr ([0, 13, 74], st)"
  by (simp add: teacher_forcing_inputs_def list_torch_def probe_decoder_def)

lemma Encoder_forward_completed:
  "Encoder_forward (completed_encoder 0) src st = Inr ([sum_list src], st)"
  by (simp add: Encoder_forward_def completed_encoder_def Encoder_init_def list_torch_def)

lemma Encoder_forward_training:
  "Encoder_forward (completed_encoder (1 / 2)) [3] 0 = Inr ([3], 1)"
  "Encoder_forward (completed_encoder (1 / 2)) [3, 4] 0 = Inr ([3], 2)"
  by (simp_all add: Encoder_forward_def completed_encoder_def Encoder_init_def list_torch_def
      upt_rec)

lemma decode_dropout:
  "decode_steps list_torch completed_namespace \<lparr>encoder = enc, decoder = dropout_decoder\<rparr>
     [1, 2] [0, 0, 0] [3] 1 = Inr ([0, 3, 8], 3)"
  "decode_steps list_torch completed_namespace \<lparr>encoder = enc, decoder = dropout_decoder\<rparr>
     [1, 2] [0, 0, 0] [3] 2 = Inr ([0, 8, 3], 4)"
  by (simp_all add: load_global_def completed_namespace_values list_torch_def dropout_decoder_def
      upt_rec)

text \<open>
  C1. As shipped, \<open>Seq2Seq.forward\<close> raises on every input: in the namespace of the
  notebook the call ends in \<open>NameError\<close> for \<open>trg_len\<close>, whatever the model, the
  library and its state, the source and the target. No cell binds \<open>trg_len\<close>,
  \<open>batch_size\<close>, \<open>trg_vocab_size\<close> or \<open>decoder_input\<close>; the hyperparameter cell, whose
  first five assignments have no right-hand side, binds nothing, so \<open>INPUT_DIM\<close>,
  \<open>OUTPUT_DIM\<close>, \<open>ENC_EMB_DIM\<close>, \<open>DEC_EMB_DIM\<close> and \<open>HID_DIM\<close> are unbound too. In any
  namespace that lacks one of the three names the outputs tensor is allocated from, the
  call returns the error branch.
\<close>

theorem Seq2Seq_forward_fails_as_shipped:
  "Seq2Seq_forward L shipped_namespace self src trg st = Inl (NameError ''trg_len'')
   \<and> (shipped_namespace :: 't namespace) ''trg_len'' = None
   \<and> (shipped_namespace :: 't namespace) ''batch_size'' = None
   \<and> (shipped_namespace :: 't namespace) ''trg_vocab_size'' = None
   \<and> (shipped_namespace :: 't namespace) ''decoder_input'' = None
   \<and> cell_binds hyperparameter_cell = []
   \<and> (shipped_namespace :: 't namespace) ''INPUT_DIM'' = None
   \<and> (shipped_namespace :: 't namespace) ''OUTPUT_DIM'' = None
   \<and> (shipped_namespace :: 't namespace) ''ENC_EMB_DIM'' = None
   \<and> (shipped_namespace :: 't namespace) ''DEC_EMB_DIM'' = None
   \<and> (shipped_namespace :: 't namespace) ''HID_DIM'' = None
   \<and> ((g :: 't namespace) ''trg_len'' = None \<or> g ''batch_size'' = None
         \<or> g ''trg_vocab_size'' = None
       \<longrightarrow> isl (Seq2Seq_forward (L :: ('t, 's) torch) g self src trg st))"
  using forward_needs_names [of g L self src trg st]
  by (simp add: forward_shipped shipped_trg_len shipped_batch_size shipped_trg_vocab_size
      shipped_decoder_input hyperparameter_cell_binds shipped_hyperparameters)

text \<open>
  With every name of the notebook bound, the forward pass raises: for a model whose
  encoder and decoder do return, and for the model the notebook builds (with numbers in
  place of the missing hyperparameters).
\<close>

theorem Seq2Seq_forward_fails_as_shipped_witness:
  "(shipped_namespace :: int list namespace) ''trg_len'' = None
   \<and> isl (Seq2Seq_forward list_torch shipped_namespace
        \<lparr>encoder = sum_encoder, decoder = echo_decoder\<rparr> [1, 2] [1, 7, 9] 0)
   \<and> Seq2Seq_forward list_torch shipped_namespace
        (notebook_model list_torch shipped_namespace
           (Encoder_init list_torch 8 4 4 2 (1 / 2)) (Decoder_init list_torch 8 4 4 2 (1 / 2)))
        [1, 2] [1, 7, 9] 0
       = Inl (NameError ''trg_len'')"
  using Seq2Seq_forward_fails_as_shipped
          [where L = list_torch and self = "\<lparr>encoder = sum_encoder, decoder = echo_decoder\<rparr>"
             and src = "[1, 2]" and trg = "[1, 7, 9]" and st = 0 and g = shipped_namespace]
        Seq2Seq_forward_fails_as_shipped
          [where L = list_torch
             and self = "notebook_model list_torch shipped_namespace
                 (Encoder_init list_torch 8 4 4 2 (1 / 2)) (Decoder_init list_torch 8 4 4 2 (1 / 2))"
             and src = "[1, 2]" and trg = "[1, 7, 9]" and st = 0 and g = shipped_namespace]
  by simp

text \<open>
  C2. The claim is what the notebook's prose and the comments in \<open>Seq2Seq.forward\<close> say
  (the first decoder input is the start token, then comes the input for the next step);
  the code does not do it. No statement of \<open>forward\<close> reads \<open>trg\<close>: the result is the
  same for any two targets. On the source \<open>[1, 2]\<close> and the target \<open>[1, 7, 9]\<close> the call
  raises \<open>NameError\<close> in the namespace of the notebook. With the placeholder names bound
  by hand (\<open>decoder_input\<close> a tensor holding 5) and the decoder that predicts ten times
  its input plus its hidden state, the outputs are \<open>[0, 53, 54]\<close>: the decoder was fed 5
  at both steps. Teacher forcing feeds it 1, the start token, and then 7, which gives
  \<open>[0, 13, 74]\<close>.
\<close>

theorem Seq2Seq_forward_feeds_no_target:
  "Seq2Seq_forward L g self src trg st = Seq2Seq_forward L g self src trg' st
   \<and> Seq2Seq_forward list_torch shipped_namespace
        \<lparr>encoder = sum_encoder, decoder = probe_decoder\<rparr> [1, 2] [1, 7, 9] 0
     = Inl (NameError ''trg_len'')
   \<and> Seq2Seq_forward list_torch completed_namespace
        \<lparr>encoder = sum_encoder, decoder = probe_decoder\<rparr> [1, 2] [1, 7, 9] 0
     = Inr ([0, 53, 54], 0)
   \<and> teacher_forcing_inputs [1, 7, 9] = [1, 7]
   \<and> teacher_forced_steps \<lparr>encoder = sum_encoder, decoder = probe_decoder\<rparr>
        [1, 7, 9] [1, 2] [0, 0, 0] [3] 0
     = Inr ([0, 13, 74], 0)"
proof (intro conjI)
  show "Seq2Seq_forward L g self src trg st = Seq2Seq_forward L g self src trg' st"
    by (rule forward_ignores_trg)
  show "Seq2Seq_forward list_torch shipped_namespace
        \<lparr>encoder = sum_encoder, decoder = probe_decoder\<rparr> [1, 2] [1, 7, 9] 0
     = Inl (NameError ''trg_len'')"
    by (rule forward_shipped)
  have "Seq2Seq_forward list_torch completed_namespace
        \<lparr>encoder = sum_encoder, decoder = probe_decoder\<rparr> [1, 2] [1, 7, 9] 0
     = Inr ([0, 50 + 3, 51 + 3], 0)"
    by (rule forward_probe) (simp add: sum_encoder_def)
  then show "Seq2Seq_forward list_torch completed_namespace
        \<lparr>encoder = sum_encoder, decoder = probe_decoder\<rparr> [1, 2] [1, 7, 9] 0
     = Inr ([0, 53, 54], 0)"
    by simp
  show "teacher_forcing_inputs [1, 7, 9] = [1, 7]"
    by (simp add: teacher_forcing_inputs_def)
  show "teacher_forced_steps \<lparr>encoder = sum_encoder, decoder = probe_decoder\<rparr>
        [1, 7, 9] [1, 2] [0, 0, 0] [3] 0
     = Inr ([0, 13, 74], 0)"
    by (rule teacher_forced_probe)
qed

text \<open>
  C3, as stated, fails. With dropout at one half, the encoder returns the hidden state
  \<open>[3]\<close> on the source \<open>[3]\<close> and on the source \<open>[3, 4]\<close>, but it has made one random draw
  for the first and two for the second. The decoder applies dropout to its input, so
  the two calls of \<open>forward\<close>, from the same state of the library and with the same
  target, return different outputs.
\<close>

theorem equal_hidden_state_counterexample:
  "Encoder_forward (completed_encoder (1 / 2)) [3] 0 = Inr ([3], 1)
   \<and> Encoder_forward (completed_encoder (1 / 2)) [3, 4] 0 = Inr ([3], 2)
   \<and> Seq2Seq_forward list_torch completed_namespace
        \<lparr>encoder = Encoder_forward (completed_encoder (1 / 2)), decoder = dropout_decoder\<rparr>
        [3] [1, 7, 9] 0
     = Inr ([0, 3, 8], 3)
   \<and> Seq2Seq_forward list_torch completed_namespace
        \<lparr>encoder = Encoder_forward (completed_encoder (1 / 2)), decoder = dropout_decoder\<rparr>
        [3, 4] [1, 7, 9] 0
     = Inr ([0, 8, 3], 4)"
proof (intro conjI)
  let ?M = "\<lparr>encoder = Encoder_forward (completed_encoder (1 / 2)), decoder = dropout_decoder\<rparr>"
  show "Encoder_forward (completed_encoder (1 / 2)) [3] 0 = Inr ([3], 1)"
    by (rule Encoder_forward_training)
  show "Encoder_forward (completed_encoder (1 / 2)) [3, 4] 0 = Inr ([3], 2)"
    by (rule Encoder_forward_training)
  have "Seq2Seq_forward list_torch completed_namespace ?M [3] [1, 7, 9] 0
      = decode_steps list_torch completed_namespace ?M [1, 2] [0, 0, 0] [3] 1"
    by (rule forward_completed) (rule Encoder_forward_training)
  then show "Seq2Seq_forward list_torch completed_namespace ?M [3] [1, 7, 9] 0
      = Inr ([0, 3, 8], 3)"
    by (simp only: decode_dropout)
  have "Seq2Seq_forward list_torch completed_namespace ?M [3, 4] [1, 7, 9] 0
      = decode_steps list_torch completed_namespace ?M [1, 2] [0, 0, 0] [3] 2"
    by (rule forward_completed) (rule Encoder_forward_training)
  then show "Seq2Seq_forward list_torch completed_namespace ?M [3, 4] [1, 7, 9] 0
      = Inr ([0, 8, 3], 4)"
    by (simp only: decode_dropout)
qed

text \<open>
  C3, amended. The source reaches the outputs of \<open>Seq2Seq.forward\<close> only through the call
  \<open>self.encoder(src)\<close>: two sources on which that call returns the same hidden state and
  leaves the library in the same state give the same result for the same target.
  \<open>Encoder.forward\<close>, where its layers are set and return, returns exactly the final
  hidden state of its recurrent layer, so its result has whatever fixed size every
  final hidden state of that layer has. The value the encoder returns is the hidden
  state of the first decoder step: with the placeholder names bound and at least one
  step to run, \<open>forward\<close> is the call of the decoder on the value of \<open>decoder_input\<close> and
  the encoder's hidden state, in the state the encoder left, followed by the remaining
  steps.
\<close>

theorem source_reaches_outputs_through_encoder:
  "(encoder self src st = encoder self src' st \<longrightarrow>
      Seq2Seq_forward L g self src trg st = Seq2Seq_forward L g self src' trg st)
   \<and> (enc_embedding E = Some embedding \<and> embedding s t = Inr (x, ta)
        \<and> enc_dropout E x ta = Inr (y, tb) \<and> enc_rnn E = Some rnn
        \<and> rnn y tb = Inr ((outs, h), tc)
      \<longrightarrow> Encoder_forward E s t = Inr (h, tc))
   \<and> (enc_rnn E = Some rnn \<and> (\<forall>y t outs h ta. rnn y t = Inr ((outs, h), ta) \<longrightarrow> sz h = k)
        \<and> Encoder_forward E s t = Inr (c, u)
      \<longrightarrow> sz c = k)
   \<and> (g ''torch'' = Some m \<and> g ''trg_len'' = Some (VInt n) \<and> 2 \<le> n
        \<and> g ''batch_size'' = Some b \<and> g ''trg_vocab_size'' = Some v
        \<and> zeros L (VInt n) b v = Inr z \<and> g ''device'' = Some dev
        \<and> to_device L z dev = Inr outputs \<and> g ''decoder_input'' = Some d
        \<and> encoder self src st = Inr (hidden, st')
      \<longrightarrow> Seq2Seq_forward L g self src trg st =
           (case decoder self d hidden st' of
              Inl e \<Rightarrow> Inl e
            | Inr ((output, hidden'), sb) \<Rightarrow>
           (case setitem L outputs 1 output of
              Inl e \<Rightarrow> Inl e
            | Inr outputs' \<Rightarrow> decode_steps L g self [2..n - 1] outputs' hidden' sb)))"
proof (intro conjI impI)
  assume "encoder self src st = encoder self src' st"
  then show "Seq2Seq_forward L g self src trg st = Seq2Seq_forward L g self src' trg st"
    by (rule forward_through_encoder)
next
  assume "enc_embedding E = Some embedding \<and> embedding s t = Inr (x, ta)
        \<and> enc_dropout E x ta = Inr (y, tb) \<and> enc_rnn E = Some rnn
        \<and> rnn y tb = Inr ((outs, h), tc)"
  then show "Encoder_forward E s t = Inr (h, tc)"
    by (simp add: Encoder_forward_hidden)
next
  assume "enc_rnn E = Some rnn \<and> (\<forall>y t outs h ta. rnn y t = Inr ((outs, h), ta) \<longrightarrow> sz h = k)
        \<and> Encoder_forward E s t = Inr (c, u)"
  then show "sz c = k"
    using Encoder_forward_size [of E rnn sz k s t c u] by simp
next
  assume a: "g ''torch'' = Some m \<and> g ''trg_len'' = Some (VInt n) \<and> 2 \<le> n
        \<and> g ''batch_size'' = Some b \<and> g ''trg_vocab_size'' = Some v
        \<and> zeros L (VInt n) b v = Inr z \<and> g ''device'' = Some dev
        \<and> to_device L z dev = Inr outputs \<and> g ''decoder_input'' = Some d
        \<and> encoder self src st = Inr (hidden, st')"
  show "Seq2Seq_forward L g self src trg st =
           (case decoder self d hidden st' of
              Inl e \<Rightarrow> Inl e
            | Inr ((output, hidden'), sb) \<Rightarrow>
           (case setitem L outputs 1 output of
              Inl e \<Rightarrow> Inl e
            | Inr outputs' \<Rightarrow> decode_steps L g self [2..n - 1] outputs' hidden' sb))"
    by (rule forward_first_step [where m = m and b = b and v = v and z = z and dev = dev])
       (simp_all add: a)
qed

text \<open>
  In evaluation mode (dropout at zero) the encoder with its layers filled in returns
  \<open>[3]\<close> on \<open>[1, 2]\<close> and on \<open>[2, 1]\<close> and makes no draw; every hidden state of its
  recurrent layer has length one. With the decoder that predicts ten times its input
  plus its hidden state, the first decoder step gets the input 5 and the hidden state
  \<open>[3]\<close> and predicts 53, and both sources give the outputs \<open>[0, 53, 54]\<close>; the
  source \<open>[4, 4]\<close>, whose hidden state is \<open>[8]\<close>, gives \<open>[0, 58, 59]\<close>. With dropout at one
  half, the sources \<open>[3, 4]\<close> and \<open>[3, 9]\<close> leave the same hidden state and the same
  state of the library, and the decoder with dropout returns the same outputs on both.
\<close>

theorem source_reaches_outputs_through_encoder_witness:
  "Encoder_forward (completed_encoder 0) [1, 2] 0 = Encoder_forward (completed_encoder 0) [2, 1] 0
   \<and> Seq2Seq_forward list_torch completed_namespace
        \<lparr>encoder = Encoder_forward (completed_encoder 0), decoder = probe_decoder\<rparr>
        [1, 2] [1, 7, 9] 0
     = Seq2Seq_forward list_torch completed_namespace
        \<lparr>encoder = Encoder_forward (completed_encoder 0), decoder = probe_decoder\<rparr>
        [2, 1] [1, 7, 9] 0
   \<and> Encoder_forward (completed_encoder 0) [1, 2] 0 = Inr ([3], 0)
   \<and> length [3 :: int] = 1
   \<and> Seq2Seq_forward list_torch completed_namespace
        \<lparr>encoder = Encoder_forward (completed_encoder 0), decoder = probe_decoder\<rparr>
        [1, 2] [1, 7, 9] 0
     = (case probe_decoder (VTensor [5]) [3] 0 of
          Inl e \<Rightarrow> Inl e
        | Inr ((output, hidden'), sb) \<Rightarrow>
       (case setitem list_torch [0, 0, 0] 1 output of
          Inl e \<Rightarrow> Inl e
        | Inr outputs' \<Rightarrow>
            decode_steps list_torch completed_namespace
              \<lparr>encoder = Encoder_forward (completed_encoder 0), decoder = probe_decoder\<rparr>
              [2..3 - 1] outputs' hidden' sb))
   \<and> probe_decoder (VTensor [5]) [3] 0 = Inr ((VTensor [53], [4]), 0)
   \<and> Seq2Seq_forward list_torch completed_namespace
        \<lparr>encoder = Encoder_forward (completed_encoder 0), decoder = probe_decoder\<rparr>
        [1, 2] [1, 7, 9] 0
     = Inr ([0, 53, 54], 0)
   \<and> Seq2Seq_forward list_torch completed_namespace
        \<lparr>encoder = Encoder_forward (completed_encoder 0), decoder = probe_decoder\<rparr>
        [4, 4] [1, 7, 9] 0
     = Inr ([0, 58, 59], 0)
   \<and> Encoder_forward (completed_encoder (1 / 2)) [3, 4] 0
     = Encoder_forward (completed_encoder (1 / 2)) [3, 9] 0
   \<and> Seq2Seq_forward list_torch completed_namespace
        \<lparr>encoder = Encoder_forward (completed_encoder (1 / 2)), decoder = dropout_decoder\<rparr>
        [3, 4] [1, 7, 9] 0
     = Seq2Seq_forward list_torch completed_namespace
        \<lparr>encoder = Encoder_forward (completed_encoder (1 / 2)), decoder = dropout_decoder\<rparr>
        [3, 9] [1, 7, 9] 0"
proof -
  let ?M = "\<lparr>encoder = Encoder_forward (completed_encoder 0), decoder = probe_decoder\<rparr>"
  let ?N = "\<lparr>encoder = Encoder_forward (completed_encoder (1 / 2)), decoder = dropout_decoder\<rparr>"
  have enc: "Encoder_forward (completed_encoder 0) [1, 2] 0
      = Encoder_forward (completed_encoder 0) [2, 1] 0"
    by (simp add: Encoder_forward_completed)
  have layers: "enc_embedding (completed_encoder 0) = Some (\<lambda>src st. Inr (src, st))"
    "enc_dropout (completed_encoder 0) [1, 2] 0 = Inr ([1, 2], 0)"
    "enc_rnn (completed_encoder 0) = Some (\<lambda>x st. Inr ((x, [sum_list x]), st))"
    by (simp_all add: completed_encoder_def Encoder_init_def list_torch_def)
  note all = source_reaches_outputs_through_encoder
    [where self = ?M and src = "[1, 2]" and src' = "[2, 1]" and st = 0 and L = list_torch
       and g = completed_namespace and trg = "[1, 7, 9]" and E = "completed_encoder 0"
       and embedding = "\<lambda>src st. Inr (src, st)" and s = "[1, 2]" and t = 0 and x = "[1, 2]"
       and ta = 0 and y = "[1, 2]" and tb = 0 and rnn = "\<lambda>x st. Inr ((x, [sum_list x]), st)"
       and outs = "[1, 2]" and h = "[3]" and tc = 0 and sz = length and k = 1 and c = "[3]"
       and u = 0 and m = "VObj ''torch''" and n = 3 and b = "VInt 1" and v = "VInt 1"
       and z = "[0, 0, 0]" and dev = "VObj ''cpu''" and outputs = "[0, 0, 0]"
       and d = "VTensor [5]" and hidden = "[3]" and st' = 0]
  have hidden: "encoder ?M [1, 2] 0 = Inr ([3], 0)"
    by (simp add: Encoder_forward_completed)
  have same: "encoder ?M [1, 2] 0 = encoder ?M [2, 1] 0"
    by (simp add: Encoder_forward_completed)
  from all same have one: "Seq2Seq_forward list_torch completed_namespace ?M [1, 2] [1, 7, 9] 0
        = Seq2Seq_forward list_torch completed_namespace ?M [2, 1] [1, 7, 9] 0"
    by blast
  from all layers have two: "Encoder_forward (completed_encoder 0) [1, 2] 0 = Inr ([3], 0)"
    by simp
  from all layers(3) two have three: "length [3 :: int] = 1"
    by simp
  from all hidden list_torch_outputs completed_namespace_values
  have four: "Seq2Seq_forward list_torch completed_namespace ?M [1, 2] [1, 7, 9] 0
     = (case probe_decoder (VTensor [5]) [3] 0 of
          Inl e \<Rightarrow> Inl e
        | Inr ((output, hidden'), sb) \<Rightarrow>
       (case setitem list_torch [0, 0, 0] 1 output of
          Inl e \<Rightarrow> Inl e
        | Inr outputs' \<Rightarrow>
            decode_steps list_torch completed_namespace ?M [2..3 - 1] outputs' hidden' sb))"
    by simp
  have five: "probe_decoder (VTensor [5]) [3] 0 = Inr ((VTensor [53], [4]), 0)"
    by (simp add: probe_decoder_def)
  have "Seq2Seq_forward list_torch completed_namespace ?M [1, 2] [1, 7, 9] 0
      = Inr ([0, 50 + 3, 51 + 3], 0)"
    by (rule forward_probe) (simp add: Encoder_forward_completed)
  then have six: "Seq2Seq_forward list_torch completed_namespace ?M [1, 2] [1, 7, 9] 0
      = Inr ([0, 53, 54], 0)"
    by simp
  have "Seq2Seq_forward list_torch completed_namespace ?M [4, 4] [1, 7, 9] 0
      = Inr ([0, 50 + 8, 51 + 8], 0)"
    by (rule forward_probe) (simp add: Encoder_forward_completed)
  then have seven: "Seq2Seq_forward list_torch completed_namespace ?M [4, 4] [1, 7, 9] 0
      = Inr ([0, 58, 59], 0)"
    by simp
  have eight: "Encoder_forward (completed_encoder (1 / 2)) [3, 4] 0
      = Encoder_forward (completed_encoder (1 / 2)) [3, 9] 0"
    by (simp add: Encoder_forward_def completed_encoder_def Encoder_init_def list_torch_def
        upt_rec)
  then have "encoder ?N [3, 4] 0 = encoder ?N [3, 9] 0"
    by simp
  then have nine: "Seq2Seq_forward list_torch completed_namespace ?N [3, 4] [1, 7, 9] 0
        = Seq2Seq_forward list_torch completed_namespace ?N [3, 9] [1, 7, 9] 0"
    by (rule source_reaches_outputs_through_encoder
          [where self = ?N and src = "[3, 4]" and src' = "[3, 9]" and st = 0,
           THEN conjunct1, THEN mp])
  from enc one two three four five six seven eight nine show ?thesis
    by (intro conjI)
qed

subsection \<open>The calls of the training functions\<close>

lemma calls_quiet:
  assumes "\<And>tr c. raises rt tr c = None"
  shows "calls rt cs tr = (tr @ cs, None)"
  by (induction cs arbitrary: tr) (simp_all add: assms)

lemma calls_extends: "\<exists>k. fst (calls rt cs tr) = tr @ take k cs"
proof (induction cs arbitrary: tr)
  case Nil
  then show ?case by simp
next
  case (Cons c cs)
  show ?case
  proof (cases "raises rt tr c")
    case None
    from Cons.IH [of "tr @ [c]"] obtain k where "fst (calls rt cs (tr @ [c])) = (tr @ [c]) @ take k cs"
      by blast
    then have "fst (calls rt (c # cs) tr) = tr @ take (Suc k) (c # cs)"
      using None by simp
    then show ?thesis by blast
  next
    case (Some e)
    then have "fst (calls rt (c # cs) tr) = tr @ take (Suc 0) (c # cs)"
      by simp
    then show ?thesis by blast
  qed
qed

lemma calls_first: "\<exists>rest. fst (calls rt (c # cs) tr) = tr @ c # rest"
proof (cases "raises rt tr c")
  case None
  obtain k where "fst (calls rt cs (tr @ [c])) = (tr @ [c]) @ take k cs"
    using calls_extends by blast
  then show ?thesis using None by simp
next
  case (Some e)
  then show ?thesis by simp
qed

lemma calls_list_all:
  assumes "list_all P tr" and "list_all P cs"
  shows "list_all P (fst (calls rt cs tr))"
proof -
  obtain k where "fst (calls rt cs tr) = tr @ take k cs"
    using calls_extends by blast
  moreover have "list_all P (take k cs)"
    using assms(2) by (auto simp add: list_all_iff dest: in_set_takeD)
  ultimately show ?thesis using assms(1) by simp
qed

lemma train_batches_quiet:
  assumes "\<And>tr c. raises rt tr c = None"
  shows "\<exists>v. train_batches rt model optimizer criterion clip iterator loss tr
       = (tr @ concat (map (train_step model optimizer criterion clip) iterator), Inr v)"
proof (induction iterator arbitrary: loss tr)
  case Nil
  then show ?case by simp
next
  case (Cons b bs)
  let ?tr = "tr @ train_step model optimizer criterion clip b"
  obtain v where "train_batches rt model optimizer criterion clip bs (loss + item_value rt ?tr) ?tr
      = (?tr @ concat (map (train_step model optimizer criterion clip) bs), Inr v)"
    using Cons.IH by blast
  then show ?case
    by (simp add: calls_quiet [OF assms])
qed

lemma train_quiet:
  assumes "\<And>tr c. raises rt tr c = None"
  shows "fst (train rt model iterator optimizer criterion clip tr)
       = tr @ Train model # concat (map (train_step model optimizer criterion clip) iterator)"
proof -
  obtain v where "train_batches rt model optimizer criterion clip iterator 0 (tr @ [Train model])
      = ((tr @ [Train model]) @ concat (map (train_step model optimizer criterion clip) iterator), Inr v)"
    using train_batches_quiet [OF assms] by blast
  then show ?thesis
    by (simp add: train_def assms)
qed

lemma train_batches_extends:
  "\<exists>k. fst (train_batches rt model optimizer criterion clip iterator loss tr) = tr @ k"
proof (induction iterator arbitrary: loss tr)
  case Nil
  then show ?case by simp
next
  case (Cons b bs)
  obtain tr' r where c: "calls rt (train_step model optimizer criterion clip b) tr = (tr', r)"
    by (cases "calls rt (train_step model optimizer criterion clip b) tr")
  obtain k where k: "tr' = tr @ k"
    using calls_extends [of rt "train_step model optimizer criterion clip b" tr] c by auto
  show ?case
  proof (cases r)
    case None
    obtain k' where "fst (train_batches rt model optimizer criterion clip bs
        (loss + item_value rt tr') tr') = tr' @ k'"
      using Cons.IH by blast
    then show ?thesis using c k None by simp
  next
    case (Some e)
    then show ?thesis using c k by simp
  qed
qed

lemma train_extends:
  "\<exists>k. fst (train rt model iterator optimizer criterion clip tr) = tr @ k"
proof (cases "raises rt tr (Train model)")
  case None
  let ?r = "train_batches rt model optimizer criterion clip iterator 0 (tr @ [Train model])"
  obtain k where "fst ?r = (tr @ [Train model]) @ k"
    using train_batches_extends [of rt model optimizer criterion clip iterator 0 "tr @ [Train model]"]
    by auto
  then show ?thesis
    using None by (cases ?r) (simp add: train_def split: sum.splits)
next
  case (Some e)
  then show ?thesis by (simp add: train_def)
qed

lemma train_batches_list_all:
  assumes "list_all P tr" and "\<And>b. list_all P (train_step model optimizer criterion clip b)"
  shows "list_all P (fst (train_batches rt model optimizer criterion clip iterator loss tr))"
  using assms(1)
proof (induction iterator arbitrary: loss tr)
  case Nil
  then show ?case by simp
next
  case (Cons b bs)
  obtain tr' r where c: "calls rt (train_step model optimizer criterion clip b) tr = (tr', r)"
    by (cases "calls rt (train_step model optimizer criterion clip b) tr")
  have tr': "list_all P tr'"
    using calls_list_all [OF Cons.prems assms(2), of rt b] c by simp
  show ?case
  proof (cases r)
    case None
    then show ?thesis using c Cons.IH [OF tr'] by simp
  next
    case (Some e)
    then show ?thesis using c tr' by simp
  qed
qed

lemma train_list_all:
  assumes "list_all P tr" and "P (Train model)"
    and "\<And>b. list_all P (train_step model optimizer criterion clip b)"
  shows "list_all P (fst (train rt model iterator optimizer criterion clip tr))"
proof (cases "raises rt tr (Train model)")
  case None
  have start: "list_all P (tr @ [Train model])" using assms(1,2) by simp
  let ?r = "train_batches rt model optimizer criterion clip iterator 0 (tr @ [Train model])"
  have "list_all P (fst ?r)"
    using start assms(3) by (rule train_batches_list_all)
  then show ?thesis
    using None by (cases ?r) (simp add: train_def split: sum.splits)
next
  case (Some e)
  then show ?thesis using assms(1,2) by (simp add: train_def)
qed

lemma evaluate_batches_extends:
  "\<exists>k. fst (evaluate_batches rt model criterion iterator loss tr) = tr @ k"
proof (induction iterator arbitrary: loss tr)
  case Nil
  then show ?case by simp
next
  case (Cons b bs)
  obtain tr' r where c: "calls rt (evaluate_step model criterion b) tr = (tr', r)"
    by (cases "calls rt (evaluate_step model criterion b) tr")
  obtain k where k: "tr' = tr @ k"
    using calls_extends [of rt "evaluate_step model criterion b" tr] c by auto
  show ?case
  proof (cases r)
    case None
    obtain k' where "fst (evaluate_batches rt model criterion bs (loss + item_value rt tr') tr')
        = tr' @ k'"
      using Cons.IH by blast
    then show ?thesis using c k None by simp
  next
    case (Some e)
    then show ?thesis using c k by simp
  qed
qed

lemma evaluate_extends: "\<exists>k. fst (evaluate rt model iterator criterion tr) = tr @ k"
proof (cases "raises rt tr (Eval model)")
  case None
  let ?r = "evaluate_batches rt model criterion iterator 0 (tr @ [Eval model])"
  obtain k where "fst ?r = (tr @ [Eval model]) @ k"
    using evaluate_batches_extends [of rt model criterion iterator 0 "tr @ [Eval model]"] by auto
  then show ?thesis
    using None by (cases ?r) (simp add: evaluate_def split: sum.splits)
next
  case (Some e)
  then show ?thesis by (simp add: evaluate_def)
qed

lemma evaluate_batches_list_all:
  assumes "list_all P tr" and "\<And>b. list_all P (evaluate_step model criterion b)"
  shows "list_all P (fst (evaluate_batches rt model criterion iterator loss tr))"
  using assms(1)
proof (induction iterator arbitrary: loss tr)
  case Nil
  then show ?case by simp
next
  case (Cons b bs)
  obtain tr' r where c: "calls rt (evaluate_step model criterion b) tr = (tr', r)"
    by (cases "calls rt (evaluate_step model criterion b) tr")
  have tr': "list_all P tr'"
    using calls_list_all [OF Cons.prems assms(2), of rt b] c by simp
  show ?case
  proof (cases r)
    case None
    then show ?thesis using c Cons.IH [OF tr'] by simp
  next
    case (Some e)
    then show ?thesis using c tr' by simp
  qed
qed

lemma evaluate_list_all:
  assumes "list_all P tr" and "P (Eval model)"
    and "\<And>b. list_all P (evaluate_step model criterion b)"
  shows "list_all P (fst (evaluate rt model iterator criterion tr))"
proof (cases "raises rt tr (Eval model)")
  case None
  have start: "list_all P (tr @ [Eval model])" using assms(1,2) by simp
  let ?r = "evaluate_batches rt model criterion iterator 0 (tr @ [Eval model])"
  have "list_all P (fst ?r)"
    using start assms(3) by (rule evaluate_batches_list_all)
  then show ?thesis
    using None by (cases ?r) (simp add: evaluate_def split: sum.splits)
next
  case (Some e)
  then show ?thesis using assms(1,2) by (simp add: evaluate_def)
qed

lemma epochs_list_all:
  assumes "list_all P tr" and "P (Train model)" and "P (Eval model)"
    and "\<And>b. list_all P (train_step model criterion optimizer CLIP b)"
    and "\<And>b. list_all P (evaluate_step model criterion b)"
  shows "list_all P (fst (epochs rt model train_iterator valid_iterator criterion optimizer es tr))"
  using assms(1)
proof (induction es arbitrary: tr)
  case Nil
  then show ?case by simp
next
  case (Cons e es)
  let ?t = "train rt model train_iterator criterion optimizer CLIP tr"
  have t: "list_all P (fst ?t)"
    using Cons.prems assms(2,4) by (rule train_list_all)
  let ?v = "evaluate rt model valid_iterator criterion (fst ?t)"
  have v: "list_all P (fst ?v)"
    using t assms(3,5) by (rule evaluate_list_all)
  show ?case
  proof (cases "snd ?t")
    case (Inl err)
    then show ?thesis using t by (cases ?t) simp
  next
    case (Inr train_loss)
    show ?thesis
    proof (cases "snd ?v")
      case (Inl err)
      then show ?thesis using Inr v by (cases ?t; cases ?v) simp
    next
      case (Inr valid_loss)
      then show ?thesis
        using \<open>snd ?t = Inr train_loss\<close> Cons.IH [OF v] by (cases ?t; cases ?v) simp
    qed
  qed
qed

lemma epochs_extends:
  "\<exists>k. fst (epochs rt model train_iterator valid_iterator criterion optimizer es tr) = tr @ k"
proof (induction es arbitrary: tr)
  case Nil
  then show ?case by simp
next
  case (Cons e es)
  let ?t = "train rt model train_iterator criterion optimizer CLIP tr"
  let ?v = "evaluate rt model valid_iterator criterion (fst ?t)"
  obtain k1 where k1: "fst ?t = tr @ k1"
    using train_extends [of rt model train_iterator criterion optimizer CLIP tr] by auto
  obtain k2 where k2: "fst ?v = fst ?t @ k2"
    using evaluate_extends [of rt model valid_iterator criterion "fst ?t"] by auto
  obtain k3 where k3: "fst (epochs rt model train_iterator valid_iterator criterion optimizer es
      (fst ?v)) = fst ?v @ k3"
    using Cons.IH [of "fst ?v"] by auto
  show ?case
  proof (cases "snd ?t")
    case (Inl err)
    then show ?thesis using k1 by (cases ?t) simp
  next
    case (Inr train_loss)
    show ?thesis
    proof (cases "snd ?v")
      case (Inl err)
      then show ?thesis using Inr k1 k2 by (cases ?t; cases ?v) simp
    next
      case (Inr valid_loss)
      then show ?thesis
        using \<open>snd ?t = Inr train_loss\<close> k1 k2 k3 by (cases ?t; cases ?v) simp
    qed
  qed
qed

lemma epochs_first_train:
  "\<exists>k. fst (epochs rt model train_iterator valid_iterator criterion optimizer (e # es) tr)
       = fst (train rt model train_iterator criterion optimizer CLIP tr) @ k"
proof -
  let ?t = "train rt model train_iterator criterion optimizer CLIP tr"
  let ?v = "evaluate rt model valid_iterator criterion (fst ?t)"
  obtain k2 where k2: "fst ?v = fst ?t @ k2"
    using evaluate_extends [of rt model valid_iterator criterion "fst ?t"] by auto
  obtain k3 where k3: "fst (epochs rt model train_iterator valid_iterator criterion optimizer es
      (fst ?v)) = fst ?v @ k3"
    using epochs_extends [of rt model train_iterator valid_iterator criterion optimizer es "fst ?v"]
    by auto
  show ?thesis
  proof (cases "snd ?t")
    case (Inl err)
    then show ?thesis by (cases ?t) simp
  next
    case (Inr train_loss)
    show ?thesis
    proof (cases "snd ?v")
      case (Inl err)
      then show ?thesis using Inr k2 by (cases ?t; cases ?v) simp
    next
      case (Inr valid_loss)
      then show ?thesis
        using \<open>snd ?t = Inr train_loss\<close> k2 k3 by (cases ?t; cases ?v) simp
    qed
  qed
qed

lemma epochs_range: "[0..<N_EPOCHS] = 0 # [1..<N_EPOCHS]"
  by (simp add: N_EPOCHS_def upt_rec)

lemma train_first_step:
  assumes "raises rt tr (Train model) = None"
  shows "\<exists>rest. fst (train rt model (b # bs) x criterion clip tr) = tr @ [Train model, Step x] @ rest"
proof -
  obtain tr' res where c: "calls rt (train_step model x criterion clip b) (tr @ [Train model]) = (tr', res)"
    by (cases "calls rt (train_step model x criterion clip b) (tr @ [Train model])")
  obtain rest where "fst (calls rt (train_step model x criterion clip b) (tr @ [Train model]))
      = (tr @ [Train model]) @ Step x # rest"
    unfolding train_step_def using calls_first by blast
  then have tr': "tr' = tr @ [Train model, Step x] @ rest" using c by simp
  show ?thesis
  proof (cases res)
    case (Some e)
    then show ?thesis using assms c tr' by (simp add: train_def)
  next
    case None
    let ?r = "train_batches rt model x criterion clip bs (0 + item_value rt tr') tr'"
    obtain k where k: "fst ?r = tr' @ k"
      using train_batches_extends [of rt model x criterion clip bs "0 + item_value rt tr'" tr']
      by auto
    then show ?thesis
      using assms c tr' None by (cases ?r) (simp add: train_def split: sum.splits)
  qed
qed

lemma training_loop_first_step:
  assumes "raises rt [] (Train model) = None"
  shows "\<exists>rest. fst (training_loop rt model (b # bs) valid_iterator criterion optimizer)
       = [Train model, Step criterion] @ rest"
proof -
  obtain k where k: "fst (training_loop rt model (b # bs) valid_iterator criterion optimizer)
       = fst (train rt model (b # bs) criterion optimizer CLIP []) @ k"
    unfolding training_loop_def epochs_range
    using epochs_first_train [of rt model "b # bs" valid_iterator criterion optimizer 0
        "[1..<N_EPOCHS]" "[]"]
    by auto
  obtain rest where "fst (train rt model (b # bs) criterion optimizer CLIP [])
       = [] @ [Train model, Step criterion] @ rest"
    using train_first_step [OF assms, of b bs criterion optimizer CLIP] by auto
  then show ?thesis using k by simp
qed

lemma training_loop_steps:
  "list_all (steps_only_on criterion)
     (fst (training_loop rt model train_iterator valid_iterator criterion optimizer))"
  unfolding training_loop_def
  by (rule epochs_list_all) (simp_all add: steps_only_on_def train_step_def evaluate_step_def)

lemma train_never_resets:
  "list_all (\<lambda>c. \<not> is_zero_grad c) (fst (train rt model iterator optimizer criterion clip []))"
  by (rule train_list_all) (simp_all add: train_step_def)

lemma steps_per_batch:
  "length (filter is_step (concat (map (train_step model optimizer criterion clip) iterator)))
     = 2 * length iterator"
  by (induction iterator) (simp_all add: train_step_def)

lemma backward_per_batch:
  "filter is_backward (concat (map (train_step model optimizer criterion clip) iterator))
     = map Backward iterator"
  by (induction iterator) (simp_all add: train_step_def)

text \<open>
  C8. \<open>train\<close> never resets the accumulated gradients: whatever the library does, no
  call of a run of \<open>train\<close> is a \<open>zero_grad\<close>. Where no call raises, the calls are
  \<open>model.train()\<close> and then, for every batch, \<open>optimizer.step()\<close> (the statement under
  the comment about zeroing the gradients), the forward pass, the criterion,
  \<open>loss.backward()\<close>, the clipping, \<open>optimizer.step()\<close> again and \<open>loss.item()\<close>: two
  steps for each batch, one before the forward pass and one after the backward pass, and
  one backward pass for each batch with no reset between them.
\<close>

theorem train_steps_twice_and_never_resets:
  "list_all (\<lambda>c. \<not> is_zero_grad c) (fst (train rt model iterator optimizer criterion clip []))
   \<and> ((\<forall>tr c. raises rt tr c = None) \<longrightarrow>
        fst (train rt model iterator optimizer criterion clip [])
          = Train model #
            concat (map (\<lambda>batch. [Step optimizer, Apply model batch, Apply criterion batch,
                                   Backward batch, ClipGradNorm model clip, Step optimizer,
                                   Item batch]) iterator)
        \<and> length (filter is_step (fst (train rt model iterator optimizer criterion clip [])))
            = 2 * length iterator
        \<and> filter is_backward (fst (train rt model iterator optimizer criterion clip []))
            = map Backward iterator
        \<and> filter is_zero_grad (fst (train rt model iterator optimizer criterion clip [])) = [])"
proof (intro conjI impI)
  show never: "list_all (\<lambda>c. \<not> is_zero_grad c)
      (fst (train rt model iterator optimizer criterion clip []))"
    by (rule train_never_resets)
  assume quiet: "\<forall>tr c. raises rt tr c = None"
  then have trace: "fst (train rt model iterator optimizer criterion clip [])
      = Train model # concat (map (train_step model optimizer criterion clip) iterator)"
    using train_quiet [of rt model iterator optimizer criterion clip "[]"] by simp
  have step: "train_step model optimizer criterion clip
      = (\<lambda>batch. [Step optimizer, Apply model batch, Apply criterion batch, Backward batch,
                   ClipGradNorm model clip, Step optimizer, Item batch])"
    by (rule ext) (simp add: train_step_def)
  show "fst (train rt model iterator optimizer criterion clip [])
      = Train model #
        concat (map (\<lambda>batch. [Step optimizer, Apply model batch, Apply criterion batch,
                               Backward batch, ClipGradNorm model clip, Step optimizer,
                               Item batch]) iterator)"
    using trace by (simp only: step)
  show "length (filter is_step (fst (train rt model iterator optimizer criterion clip [])))
      = 2 * length iterator"
    by (simp add: trace steps_per_batch)
  show "filter is_backward (fst (train rt model iterator optimizer criterion clip []))
      = map Backward iterator"
    by (simp add: trace backward_per_batch)
  show "filter is_zero_grad (fst (train rt model iterator optimizer criterion clip [])) = []"
    using never by (simp add: filter_empty_conv list_all_iff)
qed

lemma quiet_runtime_raises: "raises quiet_runtime tr c = None"
  by (simp add: quiet_runtime_def)

text \<open>Two batches in a library where no call raises: four steps, two backward passes.\<close>

theorem train_steps_twice_and_never_resets_witness:
  "fst (train quiet_runtime ''model'' [0, 1] ''optimizer'' ''criterion'' 2 [])
     = [Train ''model'',
        Step ''optimizer'', Apply ''model'' 0, Apply ''criterion'' 0, Backward 0,
        ClipGradNorm ''model'' 2, Step ''optimizer'', Item 0,
        Step ''optimizer'', Apply ''model'' 1, Apply ''criterion'' 1, Backward 1,
        ClipGradNorm ''model'' 2, Step ''optimizer'', Item 1]
   \<and> length (filter is_step
        (fst (train quiet_runtime ''model'' [0, 1] ''optimizer'' ''criterion'' 2 []))) = 4
   \<and> filter is_backward
        (fst (train quiet_runtime ''model'' [0, 1] ''optimizer'' ''criterion'' 2 []))
       = [Backward 0, Backward 1]"
  using train_steps_twice_and_never_resets
          [of quiet_runtime "''model''" "[0, 1]" "''optimizer''" "''criterion''" 2]
  by (simp add: quiet_runtime_raises)

text \<open>
  C9. The training loop passes \<open>criterion\<close> where \<open>train\<close> expects \<open>optimizer\<close> and
  \<open>optimizer\<close> where it expects \<open>criterion\<close>. So, whatever the library does, every
  \<open>step()\<close> of a run of the loop is invoked on the criterion; the optimizer, an object
  other than the criterion, is never stepped; with a training batch, the \<open>train\<close> call of
  every epoch that gets past \<open>model.train()\<close> invokes \<open>step()\<close> on the criterion next,
  and so does the loop itself in its first epoch.
\<close>

theorem training_loop_steps_the_criterion:
  "list_all (steps_only_on criterion)
     (fst (training_loop rt model train_iterator valid_iterator criterion optimizer))
   \<and> (optimizer \<noteq> criterion \<longrightarrow>
        Step optimizer
          \<notin> set (fst (training_loop rt model train_iterator valid_iterator criterion optimizer)))
   \<and> (raises rt tr (Train model) = None \<longrightarrow>
        (\<exists>rest. fst (train rt model (b # bs) criterion optimizer CLIP tr)
           = tr @ [Train model, Step criterion] @ rest))
   \<and> (raises rt [] (Train model) = None \<longrightarrow>
        (\<exists>rest. fst (training_loop rt model (b # bs) valid_iterator criterion optimizer)
           = [Train model, Step criterion] @ rest))"
proof (intro conjI impI)
  show only: "list_all (steps_only_on criterion)
     (fst (training_loop rt model train_iterator valid_iterator criterion optimizer))"
    by (rule training_loop_steps)
  show "Step optimizer
      \<notin> set (fst (training_loop rt model train_iterator valid_iterator criterion optimizer))"
    if "optimizer \<noteq> criterion"
    using only that by (auto simp add: list_all_iff steps_only_on_def)
  show "\<exists>rest. fst (train rt model (b # bs) criterion optimizer CLIP tr)
           = tr @ [Train model, Step criterion] @ rest"
    if "raises rt tr (Train model) = None"
    using that by (rule train_first_step)
  show "\<exists>rest. fst (training_loop rt model (b # bs) valid_iterator criterion optimizer)
           = [Train model, Step criterion] @ rest"
    if "raises rt [] (Train model) = None"
    using that by (rule training_loop_first_step)
qed

lemma strict_training_loop:
  "training_loop strict_runtime ''model'' [0, 1] [2] ''criterion'' ''optimizer''
     = ([Train ''model'', Step ''criterion''], Some (AttributeError ''step''))"
  by (simp add: training_loop_def epochs_range train_def train_step_def strict_runtime_def)

text \<open>
  The objects the notebook names, in a library where only the optimizer has \<open>step\<close>: the
  loop ends in its first batch, on \<open>criterion.step()\<close>.
\<close>

theorem training_loop_steps_the_criterion_witness:
  "''optimizer'' \<noteq> ''criterion''
   \<and> raises strict_runtime [] (Train ''model'') = None
   \<and> fst (training_loop strict_runtime ''model'' [0, 1] [2] ''criterion'' ''optimizer'')
       = [Train ''model'', Step ''criterion'']
   \<and> snd (training_loop strict_runtime ''model'' [0, 1] [2] ''criterion'' ''optimizer'')
       = Some (AttributeError ''step'')
   \<and> Step ''optimizer''
       \<notin> set (fst (training_loop strict_runtime ''model'' [0, 1] [2] ''criterion'' ''optimizer''))
   \<and> list_all (steps_only_on ''criterion'')
       (fst (training_loop strict_runtime ''model'' [0, 1] [2] ''criterion'' ''optimizer''))"
proof -
  have distinct: "''optimizer'' \<noteq> ''criterion''" by simp
  have quiet: "raises strict_runtime [] (Train ''model'') = None"
    by (simp add: strict_runtime_def)
  note claim = training_loop_steps_the_criterion
    [where criterion = "''criterion''" and optimizer = "''optimizer''" and rt = strict_runtime
       and model = "''model''" and train_iterator = "[0, 1]" and valid_iterator = "[2]"
       and tr = "[]" and b = 0 and bs = "[1]"]
  from claim distinct have never: "Step ''optimizer''
       \<notin> set (fst (training_loop strict_runtime ''model'' [0, 1] [2] ''criterion'' ''optimizer''))"
    by blast
  from claim have only: "list_all (steps_only_on ''criterion'')
       (fst (training_loop strict_runtime ''model'' [0, 1] [2] ''criterion'' ''optimizer''))"
    by blast
  have run: "fst (training_loop strict_runtime ''model'' [0, 1] [2] ''criterion'' ''optimizer'')
       = [Train ''model'', Step ''criterion'']"
    "snd (training_loop strict_runtime ''model'' [0, 1] [2] ''criterion'' ''optimizer'')
       = Some (AttributeError ''step'')"
    by (simp_all only: strict_training_loop fst_conv snd_conv)
  from distinct quiet run never only show ?thesis
    by (intro conjI)
qed

subsection \<open>Functions with and without placeholders\<close>

lemma Encoder_forward_as_built:
  "Encoder_forward (Encoder_init L input_dim embedding_dim hidden_dim num_layers dropout) src st
     = Inl (AttributeError ''embedding'')"
  by (simp add: Encoder_forward_def Encoder_init_def)

lemma Decoder_forward_as_built:
  "isl (Decoder_forward L g (Decoder_init L output_dim embedding_dim hidden_dim num_layers dropout)
          dec_input hidden st)"
  by (simp add: Decoder_forward_def Decoder_init_def split: nbval.splits sum.splits)

lemma epoch_time_example: "epoch_time (PInt 0) (PInt 125) = Inr (2, PInt 5)"
  using epoch_time_of_ints [where s = 0 and e = 125] by simp

text \<open>
  C4, as stated, fails: the material has functions without any placeholder, whose result
  is a defined value. \<open>epoch_time(0, 125)\<close> is \<open>(2, 5)\<close>, and \<open>Adder(3)(4)\<close> is \<open>7\<close>.
\<close>

theorem defined_behaviour_counterexample:
  "epoch_time (PInt 0) (PInt 125) = Inr (2, PInt 5)
   \<and> Adder_apply (PyInt 3) (PyInt 4) = Inr (PyInt 7)"
  by (simp add: epoch_time_example Adder_apply_add)

text \<open>
  C4, amended. Three functions of the material have no placeholder and return defined
  values: \<open>Adder(a)(b)\<close> is \<open>a + b\<close> for all integers, \<open>Person.set_name(p, n)\<close> sets the
  name of any instance, and \<open>epoch_time\<close> returns the quotient and the remainder by
  sixty of the elapsed time for two \<open>int\<close>s with an elapsed time from 0 to below
  \<open>2 ^ 53\<close>. Five functions raise on every input as shipped: the two tokenizers and
  \<open>Seq2Seq.forward\<close> in the namespace of the notebook, \<open>Encoder.forward\<close> and
  \<open>Decoder.forward\<close> on the instances their constructors build.
\<close>

theorem functions_with_and_without_results:
  "(0 \<le> e - s \<and> e - s < 2 ^ 53 \<longrightarrow>
      epoch_time (PInt s) (PInt e) = Inr ((e - s) div 60, PInt ((e - s) mod 60)))
   \<and> Adder_apply (PyInt a) (PyInt b) = Inr (PyInt (a + b))
   \<and> call_class_function ''Person'' ''set_name'' p [n]
       = Inr (PyNone, p\<lparr>inst_dict := (inst_dict p)(''name'' \<mapsto> n)\<rparr>)
   \<and> tokenize_de (shipped_namespace :: 't namespace) sentence = Inl (NameError ''tokens'')
   \<and> tokenize_en (shipped_namespace :: 't namespace) sentence = Inl (NameError ''tokens'')
   \<and> Seq2Seq_forward (L :: ('t, 's) torch) shipped_namespace self src trg st
       = Inl (NameError ''trg_len'')
   \<and> Encoder_forward (Encoder_init L input_dim embedding_dim hidden_dim num_layers dropout) src st
       = Inl (AttributeError ''embedding'')
   \<and> isl (Decoder_forward L g
        (Decoder_init L output_dim embedding_dim hidden_dim num_layers dropout) dec_input hidden st)"
  by (simp add: epoch_time_of_ints Adder_apply_add call_class_function_set_name shipped_tokens
      tokenize_de_unbound tokenize_en_unbound forward_shipped Encoder_forward_as_built
      Decoder_forward_as_built)

text \<open>
  An epoch of 125 seconds, the transcript's \<open>Adder(3)(4)\<close> and \<open>set_name\<close> on a fresh
  \<open>Person\<close>; a German and an English sentence, and the model the notebook builds (with
  numbers in place of the missing hyperparameters) on a source and a target.
\<close>

theorem functions_with_and_without_results_witness:
  "(0::int) \<le> 125 - 0 \<and> (125 - 0 :: int) < 2 ^ 53
   \<and> epoch_time (PInt 0) (PInt 125) = Inr (2, PInt 5)
   \<and> Adder_apply (PyInt 3) (PyInt 4) = Inr (PyInt 7)
   \<and> call_class_function ''Person'' ''set_name'' \<lparr>cls = ''Person'', inst_dict = Map.empty\<rparr>
         [PyStr ''Alex'']
       = Inr (PyNone, \<lparr>cls = ''Person'', inst_dict = [''name'' \<mapsto> PyStr ''Alex'']\<rparr>)
   \<and> tokenize_de (shipped_namespace :: int list namespace) ''guten morgen''
       = Inl (NameError ''tokens'')
   \<and> tokenize_en (shipped_namespace :: int list namespace) ''good morning''
       = Inl (NameError ''tokens'')
   \<and> Seq2Seq_forward list_torch shipped_namespace
        (notebook_model list_torch shipped_namespace
           (Encoder_init list_torch 8 4 4 2 (1 / 2)) (Decoder_init list_torch 8 4 4 2 (1 / 2)))
        [1, 2] [1, 7, 9] 0
       = Inl (NameError ''trg_len'')
   \<and> Encoder_forward (Encoder_init list_torch 8 4 4 2 (1 / 2)) [1, 2] 0
       = Inl (AttributeError ''embedding'')
   \<and> isl (Decoder_forward list_torch shipped_namespace
        (Decoder_init list_torch 8 4 4 2 (1 / 2)) (VTensor [5]) [3] 0)"
  using functions_with_and_without_results
    [where s = 0 and e = 125 and a = 3 and b = 4
       and p = "\<lparr>cls = ''Person'', inst_dict = Map.empty\<rparr>" and n = "PyStr ''Alex''"
       and sentence = "''guten morgen''" and L = list_torch
       and self = "notebook_model list_torch shipped_namespace
           (Encoder_init list_torch 8 4 4 2 (1 / 2)) (Decoder_init list_torch 8 4 4 2 (1 / 2))"
       and src = "[1, 2]" and trg = "[1, 7, 9]" and st = 0 and input_dim = 8
       and embedding_dim = 4 and hidden_dim = 4 and num_layers = 2 and dropout = "1 / 2"
       and g = shipped_namespace and output_dim = 8 and dec_input = "VTensor [5]"
       and hidden = "[3]"]
    functions_with_and_without_results
    [where sentence = "''good morning''" and L = list_torch and g = shipped_namespace]
  by simp

end
